theory Spec2Isabelle
  imports Complex_Main "HOL-Library.Char_ord" "HOL-Library.List_Lexorder" "HOL-Library.Multiset"
begin

section \<open>Data model\<close>

text \<open>
  The dashboard of \<^verbatim>\<open>app.py\<close> works on a pandas DataFrame read from a CSV file.
  A row of the frame is a \<open>property\<close>; the fields carry the column names the source
  uses. Numeric cells are modelled as real numbers (exact arithmetic, no rounding);
  the one floating-point value the analysis depends on, the missing value NaN that
  pandas returns for an aggregate without data, is the constructor \<open>NaN\<close> of \<open>fval\<close>.
  The \<open>Amenities\<close> cell may be missing (\<open>None\<close>), which is what \<^verbatim>\<open>na=False\<close>
  in the source caters for.
\<close>

record property =
  Price_in_Lakhs :: real
  Size_in_SqFt :: real
  Price_per_SqFt :: real
  City :: string
  Property_Type :: string
  BHK :: int
  Amenities :: "string option"

text \<open>
  A DataFrame: the names of the columns that are present (the source tests
  \<^verbatim>\<open>'City' in df.columns\<close> and the like) and the rows, in order.
\<close>

record dataframe =
  columns :: "string list"
  rows :: "property list"

datatype fval = NaN | Num real

datatype error = ValueError

text \<open>\<^verbatim>\<open>len(df)\<close> and \<^verbatim>\<open>df.empty\<close> (an axis of length zero).\<close>

definition len :: "dataframe \<Rightarrow> nat" where
  "len df = length (rows df)"

definition empty :: "dataframe \<Rightarrow> bool" where
  "empty df \<longleftrightarrow> rows df = [] \<or> columns df = []"

text \<open>Boolean-mask indexing \<^verbatim>\<open>df[mask]\<close>: the rows whose mask is true, in order.\<close>

definition mask_rows :: "(property \<Rightarrow> bool) \<Rightarrow> dataframe \<Rightarrow> dataframe" where
  "mask_rows m df = df\<lparr>rows := filter m (rows df)\<rparr>"

text \<open>\<^verbatim>\<open>Series.isin(values)\<close>, cell by cell.\<close>

definition isin :: "'a \<Rightarrow> 'a list \<Rightarrow> bool" where
  "isin v vs \<longleftrightarrow> v \<in> set vs"

section \<open>Aggregates of a column\<close>

text \<open>
  \<^verbatim>\<open>Series.mean()\<close>, \<^verbatim>\<open>Series.min()\<close> and \<^verbatim>\<open>Series.max()\<close>: NaN for a
  column without values.
\<close>

definition mean :: "real list \<Rightarrow> fval" where
  "mean xs = (if xs = [] then NaN else Num (sum_list xs / real (length xs)))"

definition series_min :: "real list \<Rightarrow> fval" where
  "series_min xs = (case xs of [] \<Rightarrow> NaN | x # ys \<Rightarrow> Num (fold min ys x))"

definition series_max :: "real list \<Rightarrow> fval" where
  "series_max xs = (case xs of [] \<Rightarrow> NaN | x # ys \<Rightarrow> Num (fold max ys x))"

section \<open>Sidebar filters\<close>

text \<open>
  The state of the sidebar widgets after the user's interaction: the two range
  sliders and the three multiselects.
\<close>

record selection =
  min_price :: real
  max_price :: real
  min_size :: real
  max_size :: real
  selected_cities :: "string list"
  selected_types :: "string list"
  selected_bhk :: "int list"

text \<open>
  Lines 106-140 of \<^verbatim>\<open>display_sidebar_filters\<close>: a multiselect exists only when its
  column does; otherwise the selection is the empty list.
\<close>

definition sidebar_selection :: "dataframe \<Rightarrow> selection \<Rightarrow> selection" where
  "sidebar_selection df w =
     w\<lparr>selected_cities := (if ''City'' \<in> set (columns df) then selected_cities w else []),
       selected_types := (if ''Property_Type'' \<in> set (columns df) then selected_types w else []),
       selected_bhk := (if ''BHK'' \<in> set (columns df) then selected_bhk w else [])\<rparr>"

text \<open>
  Lines 142-167, \<^verbatim>\<open># Apply filters\<close>: five successive maskings of a copy of the
  frame; the three membership maskings are skipped when the selection is empty.
\<close>

definition apply_filters :: "dataframe \<Rightarrow> selection \<Rightarrow> dataframe" where
  "apply_filters df w =
     (let filtered_df = df;
          filtered_df = mask_rows (\<lambda>r. Price_in_Lakhs r \<ge> min_price w \<and>
                                        Price_in_Lakhs r \<le> max_price w) filtered_df;
          filtered_df = mask_rows (\<lambda>r. Size_in_SqFt r \<ge> min_size w \<and>
                                        Size_in_SqFt r \<le> max_size w) filtered_df;
          filtered_df = (if selected_cities w \<noteq> []
                         then mask_rows (\<lambda>r. isin (City r) (selected_cities w)) filtered_df
                         else filtered_df);
          filtered_df = (if selected_types w \<noteq> []
                         then mask_rows (\<lambda>r. isin (Property_Type r) (selected_types w)) filtered_df
                         else filtered_df);
          filtered_df = (if selected_bhk w \<noteq> []
                         then mask_rows (\<lambda>r. isin (BHK r) (selected_bhk w)) filtered_df
                         else filtered_df)
      in filtered_df)"

text \<open>
  The whole of \<^verbatim>\<open>display_sidebar_filters\<close>: nothing is returned for an empty frame
  (the early \<^verbatim>\<open>return\<close> of line 84), the filtered frame otherwise.
\<close>

definition display_sidebar_filters :: "dataframe \<Rightarrow> selection \<Rightarrow> dataframe option" where
  "display_sidebar_filters df w =
     (if empty df then None else Some (apply_filters df (sidebar_selection df w)))"

section \<open>Key metrics\<close>

text \<open>
  Arithmetic on float results: an operand that is NaN makes the result NaN, a
  comparison with NaN is false. The callers divide by positive numbers only, so no
  infinity arises.
\<close>

fun fsub :: "fval \<Rightarrow> fval \<Rightarrow> fval" where
  "fsub (Num a) (Num b) = Num (a - b)"
| "fsub _ _ = NaN"

fun fdiv :: "fval \<Rightarrow> fval \<Rightarrow> fval" where
  "fdiv (Num a) (Num b) = Num (a / b)"
| "fdiv _ _ = NaN"

fun fmul :: "fval \<Rightarrow> fval \<Rightarrow> fval" where
  "fmul (Num a) (Num b) = Num (a * b)"
| "fmul _ _ = NaN"

fun fgt :: "fval \<Rightarrow> real \<Rightarrow> bool" where
  "fgt (Num a) b = (a > b)"
| "fgt NaN b = False"

fun flt :: "fval \<Rightarrow> real \<Rightarrow> bool" where
  "flt (Num a) b = (a < b)"
| "flt NaN b = False"

fun fabs :: "fval \<Rightarrow> fval" where
  "fabs (Num a) = Num \<bar>a\<bar>"
| "fabs NaN = NaN"

text \<open>
  \<^verbatim>\<open>Series.mode()\<close>: the values that occur most often, sorted ascending; no value
  for a column without values.
\<close>

definition mode :: "int list \<Rightarrow> int list" where
  "mode xs = sort (filter (\<lambda>v. \<forall>w \<in> set xs. count_list xs w \<le> count_list xs v) (remdups xs))"

text \<open>
  \<^verbatim>\<open>filtered_df['BHK'].mode()[0] if not filtered_df['BHK'].mode().empty else "N/A"\<close>
  (lines 219 and 929).
\<close>

datatype bhk_label = NA | Common int

definition common_bhk :: "dataframe \<Rightarrow> bhk_label" where
  "common_bhk filtered_df =
     (case mode (map BHK (rows filtered_df)) of [] \<Rightarrow> NA | m # _ \<Rightarrow> Common m)"

text \<open>
  The five \<^verbatim>\<open>st.metric\<close> calls of \<^verbatim>\<open>display_key_metrics\<close>. A metric is the number
  shown and its delta; the formatting of the numbers into text is left out, and the
  empty delta string \<^verbatim>\<open>""\<close> is \<open>None\<close>. The fifth metric is shown only when the
  frame has a \<^verbatim>\<open>BHK\<close> column.
\<close>

record key_metrics =
  total_properties :: "int \<times> int option"
  avg_price :: "fval \<times> fval option"
  avg_size :: "fval \<times> fval option"
  avg_pps :: "fval \<times> fval option"
  most_common_bhk :: "bhk_label option"

definition display_key_metrics :: "dataframe \<Rightarrow> dataframe \<Rightarrow> key_metrics" where
  "display_key_metrics self_df filtered_df =
     (let avg_price = mean (map Price_in_Lakhs (rows filtered_df));
          avg_size = mean (map Size_in_SqFt (rows filtered_df));
          avg_pps = mean (map Price_per_SqFt (rows filtered_df))
      in \<lparr>total_properties =
            (int (len filtered_df),
             if len filtered_df \<noteq> len self_df
             then Some (int (len filtered_df) - int (len self_df)) else None),
          avg_price =
            (avg_price,
             if len filtered_df \<noteq> len self_df
             then Some (fsub avg_price (mean (map Price_in_Lakhs (rows self_df)))) else None),
          avg_size =
            (avg_size,
             if len filtered_df \<noteq> len self_df
             then Some (fsub avg_size (mean (map Size_in_SqFt (rows self_df)))) else None),
          avg_pps =
            (avg_pps,
             if len filtered_df \<noteq> len self_df
             then Some (fsub avg_pps (mean (map Price_per_SqFt (rows self_df)))) else None),
          most_common_bhk =
            (if ''BHK'' \<in> set (columns filtered_df) then Some (common_bhk filtered_df) else None)\<rparr>)"

section \<open>Amenities analysis\<close>

text \<open>
  \<^verbatim>\<open>Series.str.contains(amenity, case=False, na=False)\<close>. The keywords of the source
  hold letters and a space only, so the regular expression is a plain substring
  search that ignores case; a missing cell does not match.
\<close>

definition lower :: "char \<Rightarrow> char" where
  "lower c = (let n = (of_char c :: nat) in if 65 \<le> n \<and> n \<le> 90 then char_of (n + 32) else c)"

fun is_substring :: "string \<Rightarrow> string \<Rightarrow> bool" where
  "is_substring p [] = (p = [])"
| "is_substring p (c # cs) = (take (length p) (c # cs) = p \<or> is_substring p cs)"

definition str_contains :: "string \<Rightarrow> string option \<Rightarrow> bool" where
  "str_contains pat cell =
     (case cell of None \<Rightarrow> False | Some s \<Rightarrow> is_substring (map lower pat) (map lower s))"

definition common_amenities :: "string list" where
  "common_amenities =
     [''Gym'', ''Pool'', ''Clubhouse'', ''Garden'', ''Park'', ''Security'', ''Lift'', ''Power Backup'']"

record amenity_row =
  Amenity :: string
  Count :: nat
  Percentage :: real
  Avg_With :: fval
  Avg_Without :: fval
  Price_Premium :: fval

text \<open>The body of the loop of lines 588-604 for one keyword, when it matches a record.\<close>

definition amenity_entry :: "dataframe \<Rightarrow> string \<Rightarrow> amenity_row" where
  "amenity_entry filtered_df amenity =
     (let has_amenity = (\<lambda>r. str_contains amenity (Amenities r));
          count_with = length (filter has_amenity (rows filtered_df));
          percentage = (real count_with / real (len filtered_df)) * 100;
          avg_price_with = mean (map Price_per_SqFt (filter has_amenity (rows filtered_df)));
          avg_price_without =
            mean (map Price_per_SqFt (filter (\<lambda>r. \<not> has_amenity r) (rows filtered_df)));
          price_premium =
            (if fgt avg_price_without 0
             then fmul (fsub (fdiv avg_price_with avg_price_without) (Num 1)) (Num 100)
             else Num 0)
      in \<lparr>Amenity = amenity, Count = count_with, Percentage = percentage,
          Avg_With = avg_price_with, Avg_Without = avg_price_without,
          Price_Premium = price_premium\<rparr>)"

text \<open>The loop over the keywords: a row is appended only when \<^verbatim>\<open>has_amenity.any()\<close>.\<close>

fun amenity_loop :: "dataframe \<Rightarrow> string list \<Rightarrow> amenity_row list" where
  "amenity_loop filtered_df [] = []"
| "amenity_loop filtered_df (amenity # rest) =
     (if list_ex (\<lambda>r. str_contains amenity (Amenities r)) (rows filtered_df)
      then amenity_entry filtered_df amenity # amenity_loop filtered_df rest
      else amenity_loop filtered_df rest)"

text \<open>
  The amenities tab of \<^verbatim>\<open>display_property_features_analysis\<close>: nothing without an
  \<^verbatim>\<open>Amenities\<close> column, otherwise the list \<^verbatim>\<open>amenity_analysis\<close> the table is made of.
\<close>

definition amenity_analysis :: "dataframe \<Rightarrow> amenity_row list option" where
  "amenity_analysis filtered_df =
     (if ''Amenities'' \<in> set (columns filtered_df)
      then Some (amenity_loop filtered_df common_amenities) else None)"

section \<open>Correlation analysis\<close>

text \<open>
  \<^verbatim>\<open>select_dtypes(include=[np.number]).columns\<close> picks every numeric column of the
  frame. Which columns the CSV file has is not fixed by the source, so the analysis
  takes them as they come: a list of labelled columns of numbers, in the order of the
  frame.
\<close>

type_synonym numeric_columns = "(string \<times> real list) list"

text \<open>
  Pearson's coefficient as pandas defines it for \<^verbatim>\<open>DataFrame.corr()\<close>: over the
  paired observations, the sum of the products of the deviations divided by the root
  of the product of the two sums of squared deviations; NaN without an observation
  and NaN when the divisor is zero. It is written in exact arithmetic, where pandas
  rounds in IEEE doubles. What is proved from it below (which cells exist, symmetry,
  the diagonal) does not depend on the rounding; nothing that compares a coefficient
  with a threshold is proved through this definition.
\<close>

definition pearson :: "real list \<Rightarrow> real list \<Rightarrow> fval" where
  "pearson xs ys =
     (let ps = zip xs ys; nobs = length ps
      in if nobs < 1 then NaN
         else
           let meanx = sum_list (map fst ps) / real nobs;
               meany = sum_list (map snd ps) / real nobs;
               ssqdm_x = sum_list (map (\<lambda>p. (fst p - meanx) * (fst p - meanx)) ps);
               ssqdm_y = sum_list (map (\<lambda>p. (snd p - meany) * (snd p - meany)) ps);
               covxy = sum_list (map (\<lambda>p. (fst p - meanx) * (snd p - meany)) ps);
               divisor = sqrt (ssqdm_x * ssqdm_y)
           in if divisor \<noteq> 0 then Num (covxy / divisor) else NaN)"

text \<open>
  The correlation matrix is a frame of its own: a list of labelled columns, each a
  list of labelled cells. \<open>loc m a b\<close> is the cell in row \<open>a\<close> of column \<open>b\<close>.
\<close>

type_synonym matrix = "(string \<times> (string \<times> fval) list) list"

definition corr :: "numeric_columns \<Rightarrow> matrix" where
  "corr cols = map (\<lambda>(b, ys). (b, map (\<lambda>(a, xs). (a, pearson xs ys)) cols)) cols"

definition loc :: "matrix \<Rightarrow> string \<Rightarrow> string \<Rightarrow> fval option" where
  "loc m a b = (case map_of m b of None \<Rightarrow> None | Some col \<Rightarrow> map_of col a)"

text \<open>
  \<^verbatim>\<open>corr_matrix.unstack()\<close>: one entry per cell, labelled (column, row), column by
  column.
\<close>

definition unstack :: "matrix \<Rightarrow> ((string \<times> string) \<times> fval) list" where
  "unstack m = concat (map (\<lambda>(b, col). map (\<lambda>(a, v). ((b, a), v)) col) m)"

text \<open>
  \<^verbatim>\<open>sort_values(ascending=False)\<close> puts the numbers in descending order and the NaN
  entries after them. pandas' default sort is not stable, and the order it gives to
  entries with equal values is not fixed. The sort is therefore a relation:
  \<open>sort_values_desc s p\<close> holds for every rearrangement \<open>p\<close> of \<open>s\<close> in that order,
  where \<open>before u v\<close> says that \<open>u\<close> may stand before \<open>v\<close>.
\<close>

fun before :: "fval \<Rightarrow> fval \<Rightarrow> bool" where
  "before (Num a) (Num b) = (a \<ge> b)"
| "before _ NaN = True"
| "before NaN (Num b) = False"

definition sort_values_desc :: "('k \<times> fval) list \<Rightarrow> ('k \<times> fval) list \<Rightarrow> bool" where
  "sort_values_desc s p \<longleftrightarrow>
     mset p = mset s \<and> sorted_wrt (\<lambda>e e'. before (snd e) (snd e')) p"

text \<open>\<^verbatim>\<open>tail(n)\<close>: the last \<open>n\<close> entries.\<close>

definition tail :: "nat \<Rightarrow> 'a list \<Rightarrow> 'a list" where
  "tail n xs = drop (length xs - n) xs"

text \<open>
  Lines 674 and 677, on the sorted series \<^verbatim>\<open>corr_pairs\<close>:
  \<^verbatim>\<open>corr_pairs[corr_pairs < 1].head(5)\<close> and \<^verbatim>\<open>corr_pairs.tail(5)\<close>.
\<close>

definition top_correlations ::
  "((string \<times> string) \<times> fval) list \<Rightarrow>
   ((string \<times> string) \<times> fval) list \<times> ((string \<times> string) \<times> fval) list" where
  "top_correlations corr_pairs =
     (let top_pos = take 5 (filter (\<lambda>e. flt (snd e) 1) corr_pairs);
          top_neg = tail 5 corr_pairs
      in (top_pos, top_neg))"

text \<open>
  \<^verbatim>\<open>display_correlation_analysis\<close> up to the two lists of top correlations, as a
  relation between the numeric columns and what the function arrives at: nothing
  with fewer than two numeric columns, otherwise the matrix and the two lists taken
  from some descending sort of the flattened matrix.
\<close>

record correlation_analysis =
  corr_matrix :: matrix
  top_pos :: "((string \<times> string) \<times> fval) list"
  top_neg :: "((string \<times> string) \<times> fval) list"

inductive display_correlation_analysis ::
  "numeric_columns \<Rightarrow> correlation_analysis option \<Rightarrow> bool" where
  not_enough:
    "length numerical_cols < 2 \<Longrightarrow> display_correlation_analysis numerical_cols None"
| analysed:
    "\<not> length numerical_cols < 2 \<Longrightarrow>
     sort_values_desc (unstack (corr numerical_cols)) corr_pairs \<Longrightarrow>
     display_correlation_analysis numerical_cols
       (Some \<lparr>corr_matrix = corr numerical_cols,
              top_pos = fst (top_correlations corr_pairs),
              top_neg = snd (top_correlations corr_pairs)\<rparr>)"

text \<open>
  For stating what the lists satisfy: a matrix whose columns, and the cells of each
  column, carry the labels \<open>L\<close> in order; the unordered pair of an entry.
\<close>

definition labelled :: "string list \<Rightarrow> matrix \<Rightarrow> bool" where
  "labelled L m \<longleftrightarrow> map fst m = L \<and> list_all (\<lambda>col. map fst (snd col) = L) m"

definition unordered :: "(string \<times> string) \<times> fval \<Rightarrow> string set" where
  "unordered e = {fst (fst e), snd (fst e)}"

section \<open>Insights\<close>

text \<open>
  \<^verbatim>\<open>Series.skew()\<close>, \<^verbatim>\<open>Series.corr()\<close> and the mean of a group of
  \<^verbatim>\<open>groupby(...).mean()\<close> are computed by pandas in IEEE doubles, and the insight
  rules compare their results with thresholds and with each other. A double near a
  threshold can fall on the other side of it than the exact value, so these three
  computations are parameters of the insight generator: what it does is stated for
  whatever numbers the library returns.
\<close>

record pandas =
  Series_skew :: "real list \<Rightarrow> fval"
  Series_corr :: "real list \<Rightarrow> real list \<Rightarrow> fval"
  group_mean :: "real list \<Rightarrow> real"

text \<open>
  \<^verbatim>\<open>groupby('City')['Price_in_Lakhs'].mean()\<close>: one entry per city of the frame,
  the cities in ascending order, with the mean price of the city's records (a group
  has at least one record). \<^verbatim>\<open>idxmax()\<close> is the label of the first entry with the
  largest value and raises ValueError on a series without entries.
\<close>

definition groupby_city_mean :: "pandas \<Rightarrow> dataframe \<Rightarrow> (string \<times> real) list" where
  "groupby_city_mean lib df =
     map (\<lambda>c. (c, group_mean lib (map Price_in_Lakhs (filter (\<lambda>r. City r = c) (rows df)))))
         (sort (remdups (map City (rows df))))"

definition idxmax :: "(string \<times> real) list \<Rightarrow> error + string" where
  "idxmax s =
     (case s of
        [] \<Rightarrow> Inl ValueError
      | e # es \<Rightarrow> Inr (fst (fold (\<lambda>x best. if snd x > snd best then x else best) es e)))"

datatype insight =
    Price_Distribution bool fval
  | Size_Price_Positive fval
  | Size_Price_Negative fval
  | Most_Expensive_City string fval
  | Popular_Configuration bhk_label
  | Price_Range fval fval fval

text \<open>
  \<^verbatim>\<open>display_insights_summary\<close>: the list \<^verbatim>\<open>insights\<close> after the five rules. The
  flag of \<open>Price_Distribution\<close> is true for the wording \<^verbatim>\<open>right\<close>, false for
  \<^verbatim>\<open>left\<close>. The ValueError of \<^verbatim>\<open>idxmax\<close> is not caught.
\<close>

definition display_insights_summary :: "pandas \<Rightarrow> dataframe \<Rightarrow> error + insight list" where
  "display_insights_summary lib filtered_df =
     (let insights = [];
          price_skew = Series_skew lib (map Price_in_Lakhs (rows filtered_df));
          insights = (if fgt (fabs price_skew) 1
                      then insights @ [Price_Distribution (fgt price_skew 0) price_skew]
                      else insights);
          size_price_corr = Series_corr lib (map Size_in_SqFt (rows filtered_df))
                                            (map Price_in_Lakhs (rows filtered_df));
          insights = (if fgt size_price_corr (1 / 2)
                      then insights @ [Size_Price_Positive size_price_corr]
                      else if flt size_price_corr 0
                      then insights @ [Size_Price_Negative size_price_corr]
                      else insights);
          city = (if ''City'' \<in> set (columns filtered_df)
                  then (case idxmax (groupby_city_mean lib filtered_df) of
                          Inl err \<Rightarrow> Inl err
                        | Inr top_city \<Rightarrow>
                            Inr [Most_Expensive_City top_city
                                   (series_max (map snd (groupby_city_mean lib filtered_df)))])
                  else Inr [])
      in case city of
           Inl err \<Rightarrow> Inl err
         | Inr city_insight \<Rightarrow>
             (let insights = insights @ city_insight;
                  insights = (if ''BHK'' \<in> set (columns filtered_df)
                              then insights @ [Popular_Configuration (common_bhk filtered_df)]
                              else insights);
                  pps_min = series_min (map Price_per_SqFt (rows filtered_df));
                  pps_max = series_max (map Price_per_SqFt (rows filtered_df));
                  pps_avg = mean (map Price_per_SqFt (rows filtered_df));
                  insights = insights @ [Price_Range pps_min pps_max pps_avg]
              in Inr insights))"

text \<open>The number of the rule an insight comes from.\<close>

fun rule_no :: "insight \<Rightarrow> nat" where
  "rule_no (Price_Distribution _ _) = 1"
| "rule_no (Size_Price_Positive _) = 2"
| "rule_no (Size_Price_Negative _) = 2"
| "rule_no (Most_Expensive_City _ _) = 3"
| "rule_no (Popular_Configuration _) = 4"
| "rule_no (Price_Range _ _ _) = 5"

section \<open>Example frames\<close>

text \<open>
  The three-record dataset of the end-to-end scenario, and a frame whose \<^verbatim>\<open>BHK\<close>
  column is 2, 2, 3, 3.
\<close>

definition ex3 :: dataframe where
  "ex3 = \<lparr>columns = [''City'', ''Price_in_Lakhs'', ''Size_in_SqFt'', ''Price_per_SqFt'',
                      ''Property_Type'', ''BHK''],
     rows = [\<lparr>Price_in_Lakhs = 100, Size_in_SqFt = 1000, Price_per_SqFt = 10000, City = ''A'',
              Property_Type = ''Apartment'', BHK = 2, Amenities = None\<rparr>,
             \<lparr>Price_in_Lakhs = 200, Size_in_SqFt = 2000, Price_per_SqFt = 10000, City = ''A'',
              Property_Type = ''Villa'', BHK = 3, Amenities = None\<rparr>,
             \<lparr>Price_in_Lakhs = 50, Size_in_SqFt = 500, Price_per_SqFt = 10000, City = ''B'',
              Property_Type = ''Apartment'', BHK = 2, Amenities = None\<rparr>]\<rparr>"

definition tie :: dataframe where
  "tie = \<lparr>columns = [''BHK''],
     rows = map (\<lambda>b. \<lparr>Price_in_Lakhs = 100, Size_in_SqFt = 1000, Price_per_SqFt = 10000,
                       City = ''A'', Property_Type = ''Apartment'', BHK = b, Amenities = None\<rparr>)
                [2, 2, 3, 3]\<rparr>"

text \<open>
  The view of \<open>ex3\<close> restricted to city A, and two frames with amenities: one where
  the keyword \<^verbatim>\<open>Gym\<close> matches some records, one where it matches all of them.
\<close>

definition view_a :: dataframe where
  "view_a = apply_filters ex3 \<lparr>min_price = 50, max_price = 200, min_size = 500, max_size = 2000,
           selected_cities = [''A''], selected_types = [], selected_bhk = []\<rparr>"

definition gymdf :: dataframe where
  "gymdf = \<lparr>columns = [''Price_per_SqFt'', ''Amenities''],
     rows = [\<lparr>Price_in_Lakhs = 120, Size_in_SqFt = 1000, Price_per_SqFt = 12000, City = ''A'',
              Property_Type = ''Apartment'', BHK = 2, Amenities = Some ''Gym, Pool''\<rparr>,
             \<lparr>Price_in_Lakhs = 100, Size_in_SqFt = 1000, Price_per_SqFt = 10000, City = ''A'',
              Property_Type = ''Apartment'', BHK = 2, Amenities = Some ''Garden''\<rparr>,
             \<lparr>Price_in_Lakhs = 80, Size_in_SqFt = 1000, Price_per_SqFt = 8000, City = ''B'',
              Property_Type = ''Apartment'', BHK = 3, Amenities = None\<rparr>]\<rparr>"

definition allgym :: dataframe where
  "allgym = \<lparr>columns = [''Price_per_SqFt'', ''Amenities''],
     rows = [\<lparr>Price_in_Lakhs = 120, Size_in_SqFt = 1000, Price_per_SqFt = 12000, City = ''A'',
              Property_Type = ''Apartment'', BHK = 2, Amenities = Some ''lift, gym''\<rparr>]\<rparr>"

text \<open>
  The view of \<open>ex3\<close> restricted to BHK 2, whose \<^verbatim>\<open>BHK\<close> and
  \<^verbatim>\<open>Price_per_SqFt\<close> columns are constant; the view of \<open>ex3\<close> for a price range
  and a size range inside the sliders' bounds that no record satisfies together.
\<close>

definition view_bhk2 :: dataframe where
  "view_bhk2 = apply_filters ex3 \<lparr>min_price = 50, max_price = 200, min_size = 500,
           max_size = 2000, selected_cities = [], selected_types = [], selected_bhk = [2]\<rparr>"

definition view_none :: dataframe where
  "view_none = apply_filters ex3 \<lparr>min_price = 50, max_price = 50, min_size = 2000,
           max_size = 2000, selected_cities = [], selected_types = [], selected_bhk = []\<rparr>"

text \<open>
  The numeric columns of a frame whose numeric columns are the four that the record
  of a row holds, in this order.
\<close>

definition numeric_fields :: "dataframe \<Rightarrow> numeric_columns" where
  "numeric_fields df =
     [(''Price_in_Lakhs'', map Price_in_Lakhs (rows df)),
      (''Size_in_SqFt'', map Size_in_SqFt (rows df)),
      (''Price_per_SqFt'', map Price_per_SqFt (rows df)),
      (''BHK'', map (\<lambda>r. real_of_int (BHK r)) (rows df))]"

text \<open>
  Two sets of three numeric columns over three records, and their correlation
  matrices. On these columns every deviation, sum and quotient is a small integer or
  a half, so the doubles pandas computes are these same numbers.
\<close>

definition abc_cols :: numeric_columns where
  "abc_cols = [(''Price_in_Lakhs'', [1, 2, 3]), (''Size_in_SqFt'', [1, 3, 2]), (''BHK'', [3, 1, 2])]"

definition abc_corr :: matrix where
  "abc_corr =
     [(''Price_in_Lakhs'',
         [(''Price_in_Lakhs'', Num 1), (''Size_in_SqFt'', Num (1 / 2)), (''BHK'', Num (- (1 / 2)))]),
      (''Size_in_SqFt'',
         [(''Price_in_Lakhs'', Num (1 / 2)), (''Size_in_SqFt'', Num 1), (''BHK'', Num (- 1))]),
      (''BHK'',
         [(''Price_in_Lakhs'', Num (- (1 / 2))), (''Size_in_SqFt'', Num (- 1)), (''BHK'', Num 1)])]"

definition neg_cols :: numeric_columns where
  "neg_cols = [(''Price_in_Lakhs'', [4, 1, 1]), (''Size_in_SqFt'', [1, 4, 1]), (''BHK'', [1, 1, 4])]"

definition neg_corr :: matrix where
  "neg_corr =
     [(''Price_in_Lakhs'',
         [(''Price_in_Lakhs'', Num 1), (''Size_in_SqFt'', Num (- (1 / 2))), (''BHK'', Num (- (1 / 2)))]),
      (''Size_in_SqFt'',
         [(''Price_in_Lakhs'', Num (- (1 / 2))), (''Size_in_SqFt'', Num 1), (''BHK'', Num (- (1 / 2)))]),
      (''BHK'',
         [(''Price_in_Lakhs'', Num (- (1 / 2))), (''Size_in_SqFt'', Num (- (1 / 2))), (''BHK'', Num 1)])]"

text \<open>A descending sort of the flattened \<open>neg_corr\<close>.\<close>

definition neg_pairs :: "((string \<times> string) \<times> fval) list" where
  "neg_pairs =
     [((''Price_in_Lakhs'', ''Price_in_Lakhs''), Num 1),
      ((''Size_in_SqFt'', ''Size_in_SqFt''), Num 1),
      ((''BHK'', ''BHK''), Num 1),
      ((''Price_in_Lakhs'', ''Size_in_SqFt''), Num (- (1 / 2))),
      ((''Price_in_Lakhs'', ''BHK''), Num (- (1 / 2))),
      ((''Size_in_SqFt'', ''Price_in_Lakhs''), Num (- (1 / 2))),
      ((''Size_in_SqFt'', ''BHK''), Num (- (1 / 2))),
      ((''BHK'', ''Price_in_Lakhs''), Num (- (1 / 2))),
      ((''BHK'', ''Size_in_SqFt''), Num (- (1 / 2)))]"

text \<open>
  A library to run the insight generator on \<open>ex3\<close>: the group mean in exact
  arithmetic, and fixed numbers for the skewness and the correlation, close to those
  of the prices and sizes of \<open>ex3\<close>.
\<close>

definition lib0 :: pandas where
  "lib0 = \<lparr>Series_skew = (\<lambda>xs. Num (9352 / 10000)),
           Series_corr = (\<lambda>xs ys. Num (9999 / 10000)),
           group_mean = (\<lambda>g. sum_list g / real (length g))\<rparr>"

section \<open>Filtering\<close>

lemma rows_mask_rows: "rows (mask_rows m df) = filter m (rows df)"
  by (simp add: mask_rows_def)

lemma columns_mask_rows: "columns (mask_rows m df) = columns df"
  by (simp add: mask_rows_def)

lemma fold_min_le: "fold min ys (x::real) \<le> x"
proof (induction ys arbitrary: x)
  case Nil
  then show ?case by simp
next
  case (Cons z zs)
  have "fold min zs (min z x) \<le> min z x" by (rule Cons.IH)
  also have "\<dots> \<le> x" by simp
  finally show ?case by simp
qed

lemma fold_min_le_mem: "y \<in> set ys \<Longrightarrow> fold min ys (x::real) \<le> y"
proof (induction ys arbitrary: x)
  case Nil
  then show ?case by simp
next
  case (Cons z zs)
  show ?case
  proof (cases "y = z")
    case True
    have "fold min zs (min z x) \<le> min z x" by (rule fold_min_le)
    then show ?thesis using True by simp
  next
    case False
    then have "y \<in> set zs" using Cons.prems by simp
    then show ?thesis using Cons.IH by simp
  qed
qed

lemma fold_max_ge: "x \<le> fold max ys (x::real)"
proof (induction ys arbitrary: x)
  case Nil
  then show ?case by simp
next
  case (Cons z zs)
  have "x \<le> max z x" by simp
  also have "\<dots> \<le> fold max zs (max z x)" by (rule Cons.IH)
  finally show ?case by simp
qed

lemma fold_max_ge_mem: "y \<in> set ys \<Longrightarrow> y \<le> fold max ys (x::real)"
proof (induction ys arbitrary: x)
  case Nil
  then show ?case by simp
next
  case (Cons z zs)
  show ?case
  proof (cases "y = z")
    case True
    have "max z x \<le> fold max zs (max z x)" by (rule fold_max_ge)
    then show ?thesis using True by simp
  next
    case False
    then have "y \<in> set zs" using Cons.prems by simp
    then show ?thesis using Cons.IH by simp
  qed
qed

lemma series_min_lower: "series_min xs = Num lo \<Longrightarrow> x \<in> set xs \<Longrightarrow> lo \<le> x"
  by (cases xs) (auto simp: series_min_def fold_min_le fold_min_le_mem)

lemma series_max_upper: "series_max xs = Num hi \<Longrightarrow> x \<in> set xs \<Longrightarrow> x \<le> hi"
  by (cases xs) (auto simp: series_max_def fold_max_ge fold_max_ge_mem)

lemma display_sidebar_filters_returns:
  "\<not> empty df \<Longrightarrow>
     display_sidebar_filters df w = Some (apply_filters df (sidebar_selection df w))"
  by (simp add: display_sidebar_filters_def)

lemma sidebar_selection_ranges:
  "min_price (sidebar_selection df w) = min_price w \<and>
   max_price (sidebar_selection df w) = max_price w \<and>
   min_size (sidebar_selection df w) = min_size w \<and>
   max_size (sidebar_selection df w) = max_size w"
  by (simp add: sidebar_selection_def)

text \<open>
  C1. A record is in the filtered view iff its price lies in the inclusive price
  range, its size lies in the inclusive size range and, for each non-empty membership
  list (cities, property types, BHK values), its attribute is a member; an empty list
  imposes no restriction. The view is the dataset filtered by that conjunction, so
  the records keep the relative order they have in the dataset, and the columns are
  unchanged.
\<close>

theorem apply_filters_sound_complete:
  "rows (apply_filters df w) =
     filter (\<lambda>r. (min_price w \<le> Price_in_Lakhs r \<and> Price_in_Lakhs r \<le> max_price w) \<and>
                 (min_size w \<le> Size_in_SqFt r \<and> Size_in_SqFt r \<le> max_size w) \<and>
                 (selected_cities w = [] \<or> City r \<in> set (selected_cities w)) \<and>
                 (selected_types w = [] \<or> Property_Type r \<in> set (selected_types w)) \<and>
                 (selected_bhk w = [] \<or> BHK r \<in> set (selected_bhk w)))
            (rows df)
   \<and> columns (apply_filters df w) = columns df"
proof -
  have "rows (apply_filters df w) = filter (\<lambda>r. (min_price w \<le> Price_in_Lakhs r \<and> Price_in_Lakhs r \<le> max_price w) \<and>
                 (min_size w \<le> Size_in_SqFt r \<and> Size_in_SqFt r \<le> max_size w) \<and>
                 (selected_cities w = [] \<or> City r \<in> set (selected_cities w)) \<and>
                 (selected_types w = [] \<or> Property_Type r \<in> set (selected_types w)) \<and>
                 (selected_bhk w = [] \<or> BHK r \<in> set (selected_bhk w)))
            (rows df)"
    unfolding apply_filters_def Let_def
    by (cases "selected_cities w = []"; cases "selected_types w = []"; cases "selected_bhk w = []")
       (simp_all add: rows_mask_rows isin_def conj_commute conj_left_commute cong: filter_cong)
  moreover have "columns (apply_filters df w) = columns df"
    unfolding apply_filters_def Let_def by (simp add: columns_mask_rows)
  ultimately show ?thesis by simp
qed

theorem apply_filters_sound_complete_witness:
  "rows (apply_filters ex3 \<lparr>min_price = 50, max_price = 200, min_size = 500, max_size = 2000,
           selected_cities = [''A''], selected_types = [], selected_bhk = []\<rparr>)
     = [rows ex3 ! 0, rows ex3 ! 1]"
  using apply_filters_sound_complete [of ex3 "\<lparr>min_price = 50, max_price = 200, min_size = 500,
           max_size = 2000, selected_cities = [''A''], selected_types = [], selected_bhk = []\<rparr>"]
  by (simp add: ex3_def)

lemma mask_rows_all: "\<forall>r \<in> set (rows df). m r \<Longrightarrow> mask_rows m df = df"
  by (simp add: mask_rows_def)

text \<open>
  C2. With the three membership lists empty and the price and size ranges set to the
  minimum and maximum of the dataset's columns (the bounds of the two sliders), the
  filter application returns the dataset itself.
\<close>

theorem apply_filters_identity:
  assumes "series_min (map Price_in_Lakhs (rows df)) = Num plo"
    and "series_max (map Price_in_Lakhs (rows df)) = Num phi"
    and "series_min (map Size_in_SqFt (rows df)) = Num slo"
    and "series_max (map Size_in_SqFt (rows df)) = Num shi"
  shows "apply_filters df \<lparr>min_price = plo, max_price = phi, min_size = slo, max_size = shi,
           selected_cities = [], selected_types = [], selected_bhk = []\<rparr> = df"
proof -
  have p: "\<forall>r \<in> set (rows df). Price_in_Lakhs r \<ge> plo \<and> Price_in_Lakhs r \<le> phi"
    using series_min_lower [OF assms(1)] series_max_upper [OF assms(2)] by simp
  have s: "\<forall>r \<in> set (rows df). Size_in_SqFt r \<ge> slo \<and> Size_in_SqFt r \<le> shi"
    using series_min_lower [OF assms(3)] series_max_upper [OF assms(4)] by simp
  show ?thesis
    unfolding apply_filters_def Let_def
    by (simp add: mask_rows_all [OF p] mask_rows_all [OF s])
qed

theorem apply_filters_identity_witness:
  "series_min (map Price_in_Lakhs (rows ex3)) = Num 50 \<and>
   series_max (map Price_in_Lakhs (rows ex3)) = Num 200 \<and>
   series_min (map Size_in_SqFt (rows ex3)) = Num 500 \<and>
   series_max (map Size_in_SqFt (rows ex3)) = Num 2000 \<and>
   apply_filters ex3 \<lparr>min_price = 50, max_price = 200, min_size = 500, max_size = 2000,
           selected_cities = [], selected_types = [], selected_bhk = []\<rparr> = ex3"
proof -
  have a: "series_min (map Price_in_Lakhs (rows ex3)) = Num 50"
    by (simp add: ex3_def series_min_def)
  have b: "series_max (map Price_in_Lakhs (rows ex3)) = Num 200"
    by (simp add: ex3_def series_max_def)
  have c: "series_min (map Size_in_SqFt (rows ex3)) = Num 500"
    by (simp add: ex3_def series_min_def)
  have d: "series_max (map Size_in_SqFt (rows ex3)) = Num 2000"
    by (simp add: ex3_def series_max_def)
  show ?thesis using a b c d apply_filters_identity [OF a b c d] by simp
qed

section \<open>Most common BHK\<close>

lemma mode_nonempty: "xs \<noteq> [] \<Longrightarrow> mode xs \<noteq> []"
proof -
  assume ne: "xs \<noteq> []"
  let ?S = "count_list xs ` set xs"
  have "finite ?S" "?S \<noteq> {}" using ne by simp_all
  then have "Max ?S \<in> ?S" by (rule Max_in)
  then obtain v where v: "v \<in> set xs" "count_list xs v = Max ?S" by auto
  have "\<forall>w \<in> set xs. count_list xs w \<le> count_list xs v"
    using v(2) by simp
  then have "v \<in> set (mode xs)" using v(1) by (simp add: mode_def)
  then show ?thesis by auto
qed

lemma set_mode: "set (mode xs) = {v \<in> set xs. \<forall>w \<in> set xs. count_list xs w \<le> count_list xs v}"
  by (auto simp: mode_def)

lemma sorted_mode: "sorted (mode xs)"
  by (simp add: mode_def)

text \<open>
  C4. For a view with at least one record the reported most common BHK is a value of
  the view whose frequency is maximal, and it is the smallest of the values of maximal
  frequency. For the BHK values 2, 2, 3, 3 it is 2.
\<close>

theorem common_bhk_smallest_mode:
  assumes "rows df \<noteq> []"
  shows "\<exists>m. common_bhk df = Common m \<and> m \<in> set (map BHK (rows df)) \<and>
             (\<forall>w \<in> set (map BHK (rows df)).
                 count_list (map BHK (rows df)) w \<le> count_list (map BHK (rows df)) m) \<and>
             (\<forall>v \<in> set (map BHK (rows df)).
                 (\<forall>w \<in> set (map BHK (rows df)).
                     count_list (map BHK (rows df)) w \<le> count_list (map BHK (rows df)) v)
                 \<longrightarrow> m \<le> v)"
proof -
  let ?xs = "map BHK (rows df)"
  have "?xs \<noteq> []" using assms by simp
  then have "mode ?xs \<noteq> []" by (rule mode_nonempty)
  then obtain m ms where eq: "mode ?xs = m # ms" by (cases "mode ?xs") auto
  have c: "common_bhk df = Common m" by (simp add: common_bhk_def eq)
  have "m \<in> set (mode ?xs)" by (simp add: eq)
  then have m1: "m \<in> set ?xs" and m2: "\<forall>w \<in> set ?xs. count_list ?xs w \<le> count_list ?xs m"
    unfolding set_mode by blast+
  have "sorted (m # ms)" using sorted_mode [of ?xs] by (simp add: eq)
  then have le: "\<forall>v \<in> set (m # ms). m \<le> v" by auto
  have m3: "\<forall>v \<in> set ?xs. (\<forall>w \<in> set ?xs. count_list ?xs w \<le> count_list ?xs v) \<longrightarrow> m \<le> v"
  proof (intro ballI impI)
    fix v assume "v \<in> set ?xs" "\<forall>w \<in> set ?xs. count_list ?xs w \<le> count_list ?xs v"
    then have "v \<in> set (mode ?xs)" unfolding set_mode by blast
    then show "m \<le> v" using le by (auto simp: eq)
  qed
  show ?thesis using c m1 m2 m3 by blast
qed

theorem common_bhk_smallest_mode_witness:
  "rows tie \<noteq> [] \<and> map BHK (rows tie) = [2, 2, 3, 3] \<and> common_bhk tie = Common 2"
proof -
  have ne: "rows tie \<noteq> []" by (simp add: tie_def)
  have xs: "map BHK (rows tie) = [2, 2, 3, 3]" by (simp add: tie_def)
  obtain m where m: "common_bhk tie = Common m" "m \<in> set (map BHK (rows tie))"
      "\<forall>v \<in> set (map BHK (rows tie)).
                 (\<forall>w \<in> set (map BHK (rows tie)).
                     count_list (map BHK (rows tie)) w \<le> count_list (map BHK (rows tie)) v)
                 \<longrightarrow> m \<le> v"
    using common_bhk_smallest_mode [OF ne] by blast
  have "m \<le> 2" using m(3) unfolding xs by simp
  moreover have "m = 2 \<or> m = 3" using m(2) unfolding xs by simp
  ultimately have "m = 2" by auto
  then show ?thesis using ne xs m(1) by simp
qed

section \<open>Deltas of the key metrics\<close>

text \<open>
  C5. The count, mean price, mean size and mean price-per-area metrics carry the
  delta metric(view) - metric(baseline) when the view and the baseline differ in their
  number of records, and carry no delta when the two numbers are equal.
\<close>

theorem key_metrics_delta:
  "(len filtered_df \<noteq> len self_df \<longrightarrow>
      snd (total_properties (display_key_metrics self_df filtered_df))
        = Some (int (len filtered_df) - int (len self_df)) \<and>
      snd (avg_price (display_key_metrics self_df filtered_df))
        = Some (fsub (mean (map Price_in_Lakhs (rows filtered_df)))
                     (mean (map Price_in_Lakhs (rows self_df)))) \<and>
      snd (avg_size (display_key_metrics self_df filtered_df))
        = Some (fsub (mean (map Size_in_SqFt (rows filtered_df)))
                     (mean (map Size_in_SqFt (rows self_df)))) \<and>
      snd (avg_pps (display_key_metrics self_df filtered_df))
        = Some (fsub (mean (map Price_per_SqFt (rows filtered_df)))
                     (mean (map Price_per_SqFt (rows self_df))))) \<and>
   (len filtered_df = len self_df \<longrightarrow>
      snd (total_properties (display_key_metrics self_df filtered_df)) = None \<and>
      snd (avg_price (display_key_metrics self_df filtered_df)) = None \<and>
      snd (avg_size (display_key_metrics self_df filtered_df)) = None \<and>
      snd (avg_pps (display_key_metrics self_df filtered_df)) = None)"
  by (simp add: display_key_metrics_def Let_def)

lemma rows_view_a: "rows view_a = [rows ex3 ! 0, rows ex3 ! 1]"
  by (simp add: view_a_def apply_filters_def mask_rows_def isin_def ex3_def)

theorem key_metrics_delta_witness:
  "len view_a \<noteq> len ex3 \<and>
   total_properties (display_key_metrics ex3 view_a) = (2, Some (- 1)) \<and>
   avg_price (display_key_metrics ex3 view_a) = (Num 150, Some (Num (100 / 3))) \<and>
   len ex3 = len ex3 \<and>
   snd (total_properties (display_key_metrics ex3 ex3)) = None \<and>
   snd (avg_price (display_key_metrics ex3 ex3)) = None \<and>
   snd (avg_size (display_key_metrics ex3 ex3)) = None \<and>
   snd (avg_pps (display_key_metrics ex3 ex3)) = None"
proof -
  have ne: "len view_a \<noteq> len ex3" by (simp add: len_def rows_view_a) (simp add: ex3_def)
  have v: "fst (total_properties (display_key_metrics ex3 view_a)) = 2"
          "fst (avg_price (display_key_metrics ex3 view_a)) = Num 150"
    by (simp_all add: display_key_metrics_def Let_def len_def rows_view_a mean_def) (simp_all add: ex3_def)
  have d: "int (len view_a) - int (len ex3) = - 1"
     "fsub (mean (map Price_in_Lakhs (rows view_a))) (mean (map Price_in_Lakhs (rows ex3))) = Num (100 / 3)"
    by (simp_all add: len_def rows_view_a mean_def) (simp_all add: ex3_def)
  show ?thesis
    using ne v d key_metrics_delta [of view_a ex3] key_metrics_delta [of ex3 ex3]
    by (simp add: prod_eq_iff)
qed

section \<open>Amenity table\<close>

lemma Amenity_amenity_entry: "Amenity (amenity_entry df a) = a"
  by (simp add: amenity_entry_def Let_def)

lemma set_amenity_loop:
  "set (amenity_loop df ks) =
     {amenity_entry df a | a. a \<in> set ks \<and> (\<exists>r \<in> set (rows df). str_contains a (Amenities r))}"
  by (induction ks) (auto simp: list_ex_iff)

lemma map_Amenity_amenity_loop:
  "map Amenity (amenity_loop df ks) =
     filter (\<lambda>a. \<exists>r \<in> set (rows df). str_contains a (Amenities r)) ks"
  by (induction ks) (auto simp: list_ex_iff Amenity_amenity_entry)

text \<open>
  C10. The rows of the amenity table are, in the order of the reference list, exactly
  the keywords that match at least one record of the view: a keyword that matches no
  record has no row.
\<close>

theorem amenity_unmatched_omitted:
  assumes "amenity_analysis filtered_df = Some table"
  shows "map Amenity table =
           filter (\<lambda>a. \<exists>r \<in> set (rows filtered_df). str_contains a (Amenities r)) common_amenities"
  using assms by (auto simp: amenity_analysis_def map_Amenity_amenity_loop split: if_splits)

lemma contains_gym: "map (\<lambda>a. list_ex (\<lambda>r. str_contains a (Amenities r)) (rows gymdf)) common_amenities
   = [True, True, False, True, False, False, False, False]"
  by code_simp

theorem amenity_unmatched_omitted_witness:
  "\<exists>table. amenity_analysis gymdf = Some table \<and> map Amenity table = [''Gym'', ''Pool'', ''Garden'']"
proof -
  have s: "amenity_analysis gymdf = Some (amenity_loop gymdf common_amenities)"
    by (simp add: amenity_analysis_def gymdf_def)
  have "filter (\<lambda>a. \<exists>r \<in> set (rows gymdf). str_contains a (Amenities r)) common_amenities
          = [''Gym'', ''Pool'', ''Garden'']"
    using contains_gym by (simp add: common_amenities_def list_ex_iff)
  then show ?thesis using s amenity_unmatched_omitted [OF s] by simp
qed


lemma mean_nonneg: "\<forall>x \<in> set xs. 0 \<le> x \<Longrightarrow> mean xs = Num m \<Longrightarrow> 0 \<le> m"
  by (auto simp: mean_def sum_list_nonneg split: if_splits)

lemma amenity_entry_premium:
  assumes nn: "\<forall>r \<in> set (rows df). 0 \<le> Price_per_SqFt r"
    and any: "\<exists>r \<in> set (rows df). str_contains a (Amenities r)"
  shows "(filter (\<lambda>r. \<not> str_contains a (Amenities r)) (rows df) = [] \<or>
          mean (map Price_per_SqFt (filter (\<lambda>r. \<not> str_contains a (Amenities r)) (rows df))) = Num 0
          \<longrightarrow> Price_Premium (amenity_entry df a) = Num 0) \<and>
         (\<not> (filter (\<lambda>r. \<not> str_contains a (Amenities r)) (rows df) = [] \<or>
             mean (map Price_per_SqFt (filter (\<lambda>r. \<not> str_contains a (Amenities r)) (rows df))) = Num 0)
          \<longrightarrow> (\<exists>w wo. mean (map Price_per_SqFt (filter (\<lambda>r. str_contains a (Amenities r)) (rows df))) = Num w \<and>
                     mean (map Price_per_SqFt (filter (\<lambda>r. \<not> str_contains a (Amenities r)) (rows df))) = Num wo \<and>
                     Price_Premium (amenity_entry df a) = Num ((w / wo - 1) * 100)))"
proof -
  let ?with = "filter (\<lambda>r. str_contains a (Amenities r)) (rows df)"
  let ?without = "filter (\<lambda>r. \<not> str_contains a (Amenities r)) (rows df)"
  have wne: "?with \<noteq> []" using any by (auto simp: filter_empty_conv)
  then obtain w where w: "mean (map Price_per_SqFt ?with) = Num w"
    by (simp add: mean_def)
  have P: "Price_Premium (amenity_entry df a) =
             (if fgt (mean (map Price_per_SqFt ?without)) 0
              then fmul (fsub (fdiv (mean (map Price_per_SqFt ?with)) (mean (map Price_per_SqFt ?without))) (Num 1)) (Num 100)
              else Num 0)"
    by (simp add: amenity_entry_def Let_def)
  show ?thesis
  proof (cases "?without = []")
    case True
    then show ?thesis unfolding P by (simp add: mean_def)
  next
    case False
    then obtain wo where wo: "mean (map Price_per_SqFt ?without) = Num wo"
      by (simp add: mean_def)
    have "\<forall>x \<in> set (map Price_per_SqFt ?without). 0 \<le> x" using nn by auto
    then have "0 \<le> wo" using wo by (rule mean_nonneg)
    then show ?thesis unfolding P using False w wo by auto
  qed
qed

text \<open>
  C6. Records have a price-per-area that is not negative (price \<open>\<ge> 0\<close>, size \<open>> 0\<close>
  in the data model). For every row of the amenity table, the premium is 0 when the
  records without the keyword are none or have mean price-per-area zero, and is
  (mean(with) / mean(without) - 1) * 100 otherwise, both means being numbers.
\<close>

theorem amenity_premium_fallback:
  assumes "amenity_analysis filtered_df = Some table"
    and "row \<in> set table"
    and "\<forall>r \<in> set (rows filtered_df). 0 \<le> Price_per_SqFt r"
  shows "Amenity row \<in> set common_amenities \<and>
         (filter (\<lambda>r. \<not> str_contains (Amenity row) (Amenities r)) (rows filtered_df) = [] \<or>
          mean (map Price_per_SqFt
                 (filter (\<lambda>r. \<not> str_contains (Amenity row) (Amenities r)) (rows filtered_df))) = Num 0
          \<longrightarrow> Price_Premium row = Num 0) \<and>
         (\<not> (filter (\<lambda>r. \<not> str_contains (Amenity row) (Amenities r)) (rows filtered_df) = [] \<or>
             mean (map Price_per_SqFt
                    (filter (\<lambda>r. \<not> str_contains (Amenity row) (Amenities r)) (rows filtered_df))) = Num 0)
          \<longrightarrow> (\<exists>w wo.
                 mean (map Price_per_SqFt
                        (filter (\<lambda>r. str_contains (Amenity row) (Amenities r)) (rows filtered_df))) = Num w \<and>
                 mean (map Price_per_SqFt
                        (filter (\<lambda>r. \<not> str_contains (Amenity row) (Amenities r)) (rows filtered_df))) = Num wo \<and>
                 Price_Premium row = Num ((w / wo - 1) * 100)))"
proof -
  have "row \<in> set (amenity_loop filtered_df common_amenities)"
    using assms(1,2) by (auto simp: amenity_analysis_def split: if_splits)
  then obtain a where a: "a \<in> set common_amenities"
      "\<exists>r \<in> set (rows filtered_df). str_contains a (Amenities r)"
      "row = amenity_entry filtered_df a"
    unfolding set_amenity_loop by blast
  show ?thesis
    using amenity_entry_premium [OF assms(3) a(2)] a(1)
    unfolding a(3) Amenity_amenity_entry by blast
qed

lemma gym_parts:
  "filter (\<lambda>r. str_contains ''Gym'' (Amenities r)) (rows gymdf) = [rows gymdf ! 0]"
  "filter (\<lambda>r. \<not> str_contains ''Gym'' (Amenities r)) (rows gymdf) = [rows gymdf ! 1, rows gymdf ! 2]"
  by code_simp+


lemma allgym_parts:
  "filter (\<lambda>r. str_contains ''Gym'' (Amenities r)) (rows allgym) = rows allgym"
  "filter (\<lambda>r. \<not> str_contains ''Gym'' (Amenities r)) (rows allgym) = []"
  by code_simp+

theorem amenity_premium_fallback_witness:
  "amenity_analysis gymdf = Some (amenity_loop gymdf common_amenities) \<and>
   amenity_entry gymdf ''Gym'' \<in> set (amenity_loop gymdf common_amenities) \<and>
   list_all (\<lambda>r. 0 \<le> Price_per_SqFt r) (rows gymdf) \<and>
   Price_Premium (amenity_entry gymdf ''Gym'') = Num ((12000 / 9000 - 1) * 100) \<and>
   amenity_analysis allgym = Some (amenity_loop allgym common_amenities) \<and>
   amenity_entry allgym ''Gym'' \<in> set (amenity_loop allgym common_amenities) \<and>
   list_all (\<lambda>r. 0 \<le> Price_per_SqFt r) (rows allgym) \<and>
   Price_Premium (amenity_entry allgym ''Gym'') = Num 0"
proof -
  have t: "amenity_analysis gymdf = Some (amenity_loop gymdf common_amenities)"
    by (simp add: amenity_analysis_def gymdf_def)
  have "filter (\<lambda>r. str_contains ''Gym'' (Amenities r)) (rows gymdf) \<noteq> []"
    by (simp add: gym_parts)
  then have r: "amenity_entry gymdf ''Gym'' \<in> set (amenity_loop gymdf common_amenities)"
    unfolding set_amenity_loop by (auto simp: common_amenities_def filter_empty_conv)
  have nn: "\<forall>r \<in> set (rows gymdf). 0 \<le> Price_per_SqFt r"
    by (simp add: gymdf_def)
  have w: "mean (map Price_per_SqFt (filter (\<lambda>r. str_contains ''Gym'' (Amenities r)) (rows gymdf)))
             = Num 12000"
    unfolding gym_parts by (simp add: mean_def gymdf_def)
  have wo: "mean (map Price_per_SqFt (filter (\<lambda>r. \<not> str_contains ''Gym'' (Amenities r)) (rows gymdf)))
             = Num 9000"
    unfolding gym_parts by (simp add: mean_def gymdf_def)
  have ne: "filter (\<lambda>r. \<not> str_contains ''Gym'' (Amenities r)) (rows gymdf) \<noteq> []"
    by (simp add: gym_parts)
  have p1: "Price_Premium (amenity_entry gymdf ''Gym'') = Num ((12000 / 9000 - 1) * 100)"
    using amenity_premium_fallback [OF t r nn] w wo ne
    unfolding Amenity_amenity_entry by auto
  have t': "amenity_analysis allgym = Some (amenity_loop allgym common_amenities)"
    by (simp add: amenity_analysis_def allgym_def)
  have "filter (\<lambda>r. str_contains ''Gym'' (Amenities r)) (rows allgym) \<noteq> []"
    unfolding allgym_parts by (simp add: allgym_def)
  then have r': "amenity_entry allgym ''Gym'' \<in> set (amenity_loop allgym common_amenities)"
    unfolding set_amenity_loop by (auto simp: common_amenities_def filter_empty_conv)
  have nn': "\<forall>r \<in> set (rows allgym). 0 \<le> Price_per_SqFt r"
    by (simp add: allgym_def)
  have p2: "Price_Premium (amenity_entry allgym ''Gym'') = Num 0"
    using amenity_premium_fallback [OF t' r' nn'] allgym_parts(2)
    unfolding Amenity_amenity_entry by auto
  show ?thesis using t r nn p1 t' r' nn' p2 by (simp add: list_all_iff)
qed

section \<open>Correlation matrix\<close>

lemma sum_zip_swap:
  "sum_list (map (\<lambda>p. f (fst p) (snd p)) (zip ys xs)) = sum_list (map (\<lambda>p. f (snd p) (fst p)) (zip xs ys))"
proof -
  have "zip ys xs = map (\<lambda>(x, y). (y, x)) (zip xs ys)" by (rule zip_commute)
  then show ?thesis by (simp add: o_def case_prod_beta)
qed

lemma pearson_commute: "pearson ys xs = pearson xs ys"
proof -
  have l: "length (zip ys xs) = length (zip xs ys)" by (simp add: min.commute)
  have a: "sum_list (map fst (zip ys xs)) = sum_list (map snd (zip xs ys))"
    using sum_zip_swap [of "\<lambda>a b. a" ys xs] by simp
  have b: "sum_list (map snd (zip ys xs)) = sum_list (map fst (zip xs ys))"
    using sum_zip_swap [of "\<lambda>a b. b" ys xs] by simp
  have c: "\<And>m. sum_list (map (\<lambda>p. (fst p - m) * (fst p - m)) (zip ys xs))
              = sum_list (map (\<lambda>p. (snd p - m) * (snd p - m)) (zip xs ys))"
    using sum_zip_swap [of "\<lambda>a b. (a - m) * (a - m)" ys xs for m] by simp
  have d: "\<And>m. sum_list (map (\<lambda>p. (snd p - m) * (snd p - m)) (zip ys xs))
              = sum_list (map (\<lambda>p. (fst p - m) * (fst p - m)) (zip xs ys))"
    using sum_zip_swap [of "\<lambda>a b. (b - m) * (b - m)" ys xs for m] by simp
  have e: "\<And>m k. sum_list (map (\<lambda>p. (fst p - m) * (snd p - k)) (zip ys xs))
              = sum_list (map (\<lambda>p. (fst p - k) * (snd p - m)) (zip xs ys))"
    using sum_zip_swap [of "\<lambda>a b. (a - m) * (b - k)" ys xs for m k] by (simp add: mult.commute)
  show ?thesis
    unfolding pearson_def Let_def l a b c d e by (simp only: mult.commute)
qed

lemma sum_sq_zero_iff:
  "sum_list (map (\<lambda>x. (x - m) * (x - m)) xs) = 0 \<longleftrightarrow> (\<forall>x \<in> set xs. x = (m::real))"
proof -
  have "sum_list (map (\<lambda>x. (x - m) * (x - m)) xs) = 0
          \<longleftrightarrow> (\<forall>v \<in> set (map (\<lambda>x. (x - m) * (x - m)) xs). v = 0)"
    by (rule sum_list_nonneg_eq_0_iff) auto
  then show ?thesis by auto
qed

lemma mean_const: "xs \<noteq> [] \<Longrightarrow> \<forall>x \<in> set xs. x = (c::real) \<Longrightarrow> sum_list xs / real (length xs) = c"
proof -
  assume ne: "xs \<noteq> []" and all: "\<forall>x \<in> set xs. x = c"
  have "xs = replicate (length xs) c" using all by (simp add: replicate_length_same)
  then have "sum_list xs = real (length xs) * c"
    by (metis sum_list_replicate)
  then show ?thesis using ne by simp
qed

lemma pearson_self:
  "pearson xs xs = (if \<exists>x \<in> set xs. \<exists>y \<in> set xs. x \<noteq> y then Num 1 else NaN)"
proof -
  let ?m = "sum_list xs / real (length xs)"
  let ?s = "sum_list (map (\<lambda>x. (x - ?m) * (x - ?m)) xs)"
  have z: "zip xs xs = map (\<lambda>x. (x, x)) xs" by (induction xs) auto
  have nn: "0 \<le> ?s" by (rule sum_list_nonneg) auto
  have P: "pearson xs xs = (if xs = [] then NaN else if ?s \<noteq> 0 then Num (?s / sqrt (?s * ?s)) else NaN)"
    unfolding pearson_def Let_def z by (simp add: o_def)
  show ?thesis
  proof (cases "\<exists>x \<in> set xs. \<exists>y \<in> set xs. x \<noteq> y")
    case True
    then have ne: "xs \<noteq> []" by auto
    have "\<not> (\<forall>x \<in> set xs. x = ?m)" using True by metis
    then have s0: "?s \<noteq> 0" using sum_sq_zero_iff [of ?m xs] by simp
    have "sqrt (?s * ?s) = ?s" using nn by simp
    then show ?thesis using True ne s0 P by simp
  next
    case False
    show ?thesis
    proof (cases "xs = []")
      case True
      then show ?thesis using P by simp
    next
      case ne: False
      then obtain c where c: "c \<in> set xs" by (cases xs) auto
      then have all: "\<forall>x \<in> set xs. x = c" using False by auto
      have "?m = c" using mean_const [OF ne all] .
      then have "?s = 0" using sum_sq_zero_iff [of ?m xs] all by simp
      then show ?thesis using False ne P by simp
    qed
  qed
qed

lemma map_of_corr:
  "map_of (corr cols) b =
     map_option (\<lambda>ys. map (\<lambda>(a, xs). (a, pearson xs ys)) cols) (map_of cols b)"
proof -
  have "corr cols = map (\<lambda>(k, v). (k, (\<lambda>ys. map (\<lambda>(a, xs). (a, pearson xs ys)) cols) v)) cols"
    by (simp add: corr_def)
  then show ?thesis by (simp only: map_of_map o_def)
qed

lemma map_of_cells:
  "map_of (map (\<lambda>(a, xs). (a, pearson xs ys)) cols) a = map_option (\<lambda>xs. pearson xs ys) (map_of cols a)"
proof -
  have "map (\<lambda>(a, xs). (a, pearson xs ys)) cols = map (\<lambda>(k, v). (k, (\<lambda>xs. pearson xs ys) v)) cols"
    by simp
  then show ?thesis by (simp only: map_of_map o_def)
qed

lemma loc_corr:
  "map_of cols a = Some xs \<Longrightarrow> map_of cols b = Some ys \<Longrightarrow> loc (corr cols) a b = Some (pearson xs ys)"
  by (simp add: loc_def map_of_corr map_of_cells)

lemma sort_values_desc_exists: "\<exists>p. sort_values_desc s p"
proof -
  let ?k = "\<lambda>e::'a \<times> fval. case snd e of Num v \<Rightarrow> - v | NaN \<Rightarrow> 0"
  let ?A = "sort_key ?k (filter (\<lambda>e. snd e \<noteq> NaN) s)"
  let ?B = "filter (\<lambda>e. snd e = NaN) s"
  have "sorted (map ?k ?A)" by (rule sorted_sort_key)
  then have "sorted_wrt (\<lambda>e e'. ?k e \<le> ?k e') ?A" by (simp only: sorted_map)
  moreover have "\<And>e e'. e \<in> set ?A \<Longrightarrow> e' \<in> set ?A \<Longrightarrow> ?k e \<le> ?k e' \<Longrightarrow> before (snd e) (snd e')"
  proof -
    fix e e' assume "e \<in> set ?A" "e' \<in> set ?A" "?k e \<le> ?k e'"
    then show "before (snd e) (snd e')"
      by (cases "snd e"; cases "snd e'") auto
  qed
  ultimately have A: "sorted_wrt (\<lambda>e e'. before (snd e) (snd e')) ?A"
    by (rule sorted_wrt_mono_rel [rotated])
  have "sorted_wrt (\<lambda>e e'. True) ?B" by (simp add: sorted_wrt_iff_nth_less)
  then have B: "sorted_wrt (\<lambda>e e'. before (snd e) (snd e')) ?B"
    by (rule sorted_wrt_mono_rel [rotated]) auto
  have AB: "\<forall>e \<in> set ?A. \<forall>e' \<in> set ?B. before (snd e) (snd e')" by auto
  have "sorted_wrt (\<lambda>e e'. before (snd e) (snd e')) (?A @ ?B)"
    unfolding sorted_wrt_append using A B AB by blast
  moreover have "mset (?A @ ?B) = mset s" by simp
  ultimately show ?thesis unfolding sort_values_desc_def by blast
qed

lemma display_correlation_analysis_returns:
  "\<not> length numerical_cols < 2 \<Longrightarrow>
     \<exists>res. display_correlation_analysis numerical_cols (Some res) \<and>
           corr_matrix res = corr numerical_cols"
proof -
  assume g: "\<not> length numerical_cols < 2"
  obtain p where p: "sort_values_desc (unstack (corr numerical_cols)) p"
    using sort_values_desc_exists by blast
  show ?thesis
    using display_correlation_analysis.analysed [OF g p] by force
qed

lemma display_correlation_analysis_matrix:
  "display_correlation_analysis numerical_cols (Some res) \<Longrightarrow>
     corr_matrix res = corr numerical_cols \<and> \<not> length numerical_cols < 2"
  by (erule display_correlation_analysis.cases) auto

text \<open>
  C7, as amended. For every list of numeric columns, two or more, the correlation
  matrix has, for every two attributes, the Pearson coefficient of their columns as
  entry, and entry (a,b) equals entry (b,a). The diagonal entry of an attribute is 1
  when the attribute takes at least two different values in the view, and is NaN
  when the attribute is constant over the view.
\<close>

theorem corr_matrix_symmetric_diagonal:
  assumes "display_correlation_analysis numerical_cols (Some res)"
    and "map_of numerical_cols a = Some xs"
    and "map_of numerical_cols b = Some ys"
  shows "loc (corr_matrix res) a b = Some (pearson xs ys) \<and>
         loc (corr_matrix res) a b = loc (corr_matrix res) b a \<and>
         loc (corr_matrix res) a a =
           Some (if \<exists>x \<in> set xs. \<exists>y \<in> set xs. x \<noteq> y then Num 1 else NaN)"
proof -
  have m: "corr_matrix res = corr numerical_cols"
    using display_correlation_analysis_matrix [OF assms(1)] by simp
  show ?thesis
    unfolding m
    using loc_corr [OF assms(2) assms(3)] loc_corr [OF assms(3) assms(2)]
      loc_corr [OF assms(2) assms(2)] pearson_commute [of ys xs] pearson_self [of xs]
    by simp
qed

lemma rows_view_bhk2: "rows view_bhk2 = [rows ex3 ! 0, rows ex3 ! 2]"
  by (simp add: view_bhk2_def apply_filters_def mask_rows_def isin_def ex3_def)

lemma numeric_view_bhk2:
  "numeric_fields view_bhk2 =
     [(''Price_in_Lakhs'', [100, 50]), (''Size_in_SqFt'', [1000, 500]),
      (''Price_per_SqFt'', [10000, 10000]), (''BHK'', [2, 2])]"
  by (simp add: numeric_fields_def rows_view_bhk2) (simp add: ex3_def)

text \<open>
  The claim as stated, with every diagonal entry 1, fails on the view of the
  three-record dataset restricted to BHK 2. The view has four numeric columns, the
  \<^verbatim>\<open>BHK\<close> column is constant, and its diagonal entry in the matrix of line 653
  is NaN.
\<close>

theorem corr_matrix_diagonal_counterexample:
  "\<not> length (numeric_fields view_bhk2) < 2 \<and>
   loc (corr (numeric_fields view_bhk2)) ''BHK'' ''BHK'' = Some NaN \<and>
   loc (corr (numeric_fields view_bhk2)) ''BHK'' ''BHK'' \<noteq> Some (Num 1)"
  unfolding numeric_view_bhk2 by (simp add: loc_def corr_def pearson_def)

lemma numeric_ex3:
  "numeric_fields ex3 =
     [(''Price_in_Lakhs'', [100, 200, 50]), (''Size_in_SqFt'', [1000, 2000, 500]),
      (''Price_per_SqFt'', [10000, 10000, 10000]), (''BHK'', [2, 3, 2])]"
  by (simp add: numeric_fields_def ex3_def)

theorem corr_matrix_symmetric_diagonal_witness:
  "\<exists>res. display_correlation_analysis (numeric_fields ex3) (Some res) \<and>
     map_of (numeric_fields ex3) ''Price_in_Lakhs'' = Some [100, 200, 50] \<and>
     map_of (numeric_fields ex3) ''Price_per_SqFt'' = Some [10000, 10000, 10000] \<and>
     loc (corr_matrix res) ''Price_in_Lakhs'' ''Price_per_SqFt''
       = loc (corr_matrix res) ''Price_per_SqFt'' ''Price_in_Lakhs'' \<and>
     loc (corr_matrix res) ''Price_in_Lakhs'' ''Price_in_Lakhs'' = Some (Num 1) \<and>
     loc (corr_matrix res) ''Price_per_SqFt'' ''Price_per_SqFt'' = Some NaN"
proof -
  have "\<not> length (numeric_fields ex3) < 2" by (simp add: numeric_ex3)
  then obtain res where d: "display_correlation_analysis (numeric_fields ex3) (Some res)"
    using display_correlation_analysis_returns by blast
  have a: "map_of (numeric_fields ex3) ''Price_in_Lakhs'' = Some [100, 200, 50]"
    by (simp add: numeric_ex3)
  have b: "map_of (numeric_fields ex3) ''Price_per_SqFt'' = Some [10000, 10000, 10000]"
    by (simp add: numeric_ex3)
  have "loc (corr_matrix res) ''Price_in_Lakhs'' ''Price_per_SqFt''
       = loc (corr_matrix res) ''Price_per_SqFt'' ''Price_in_Lakhs'' \<and>
     loc (corr_matrix res) ''Price_in_Lakhs'' ''Price_in_Lakhs'' = Some (Num 1) \<and>
     loc (corr_matrix res) ''Price_per_SqFt'' ''Price_per_SqFt'' = Some NaN"
    using corr_matrix_symmetric_diagonal [OF d a b] corr_matrix_symmetric_diagonal [OF d b a]
    by auto
  then show ?thesis using d a b by blast
qed

section \<open>Top correlations\<close>

lemma unstack_labels_aux:
  "list_all (\<lambda>col. map fst (snd col) = L) m \<Longrightarrow>
     map fst (unstack m) = List.product (map fst m) L"
proof (induction m)
  case Nil
  then show ?case by (simp add: unstack_def)
next
  case (Cons c m)
  have "map fst (map (\<lambda>(a, v). ((fst c, a), v)) (snd c)) = map (Pair (fst c)) (map fst (snd c))"
    by (simp add: o_def case_prod_beta)
  moreover have "map fst (snd c) = L" using Cons.prems by simp
  ultimately have "map fst (map (\<lambda>(a, v). ((fst c, a), v)) (snd c)) = map (Pair (fst c)) L"
    by simp
  moreover have "map fst (unstack m) = List.product (map fst m) L"
    using Cons by simp
  ultimately show ?case
    by (simp add: unstack_def case_prod_beta)
qed

lemma unstack_labels: "labelled L m \<Longrightarrow> map fst (unstack m) = List.product L L"
  using unstack_labels_aux [of L m] by (simp add: labelled_def)

lemma labelled_corr: "labelled (map fst cols) (corr cols)"
  by (simp add: labelled_def corr_def list_all_iff o_def case_prod_beta)

lemma take_drop_before:
  assumes "sorted_wrt R q"
  shows "\<forall>e \<in> set (take n q). \<forall>e' \<in> set (drop n q). R e e'"
proof -
  have "sorted_wrt R (take n q @ drop n q)" using assms by simp
  then show ?thesis unfolding sorted_wrt_append by blast
qed

lemma descending_filter_drop:
  assumes "sorted_wrt (\<lambda>e e'. \<exists>u v. snd e = Num u \<and> snd e' = Num v \<and> v \<le> u) p"
  shows "\<exists>k. k \<le> length p \<and> filter (\<lambda>e. flt (snd e) t) p = drop k p"
  using assms
proof (induction p)
  case Nil
  then show ?case by simp
next
  case (Cons x xs)
  show ?case
  proof (cases "flt (snd x) t")
    case True
    have "\<forall>e \<in> set xs. flt (snd e) t"
    proof
      fix e assume "e \<in> set xs"
      then obtain u v where "snd x = Num u" "snd e = Num v" "v \<le> u"
        using Cons.prems by auto
      then show "flt (snd e) t" using True by simp
    qed
    then have "filter (\<lambda>e. flt (snd e) t) (x # xs) = drop 0 (x # xs)"
      using True by simp
    then show ?thesis by blast
  next
    case False
    obtain k where k: "k \<le> length xs" "filter (\<lambda>e. flt (snd e) t) xs = drop k xs"
      using Cons by auto
    have "filter (\<lambda>e. flt (snd e) t) (x # xs) = drop (Suc k) (x # xs)"
      using False k(2) by simp
    then show ?thesis using k(1) by (metis Suc_le_mono length_Cons)
  qed
qed

lemma length_filter_mset:
  "mset p = mset s \<Longrightarrow> length (filter P p) = length (filter P s)"
  by (metis mset_filter size_mset)

text \<open>
  C8, as amended. The statement is for a correlation matrix whose self-pairs have the
  coefficient 1 and whose other pairs all have a coefficient that is a number below
  1, and for every descending sort of its flattening. The flattening holds every
  ordered pair of attributes once, self-pairs included, so an unordered pair stands
  in it in both orientations. The top positive list holds five ordered pairs of
  different attributes (all of them when there are fewer than five), in descending
  order of coefficient, and no ordered pair of different attributes that is left out
  has a larger coefficient than one in the list. When at least five entries have a
  negative coefficient, the top negative list holds five entries, all negative, in
  descending order of coefficient, and no entry that is left out has a smaller
  coefficient than one in the list.
\<close>

theorem top_correlations_extracted:
  assumes "labelled L m"
    and "list_all (\<lambda>e. if fst (fst e) = snd (fst e) then snd e = Num 1 else flt (snd e) 1)
           (unstack m)"
    and "sort_values_desc (unstack m) corr_pairs"
  shows "mset (map fst corr_pairs) = mset (List.product L L) \<and>
         length (fst (top_correlations corr_pairs))
           = min 5 (length (filter (\<lambda>e. fst (fst e) \<noteq> snd (fst e)) (unstack m))) \<and>
         (\<forall>e \<in> set (fst (top_correlations corr_pairs)). fst (fst e) \<noteq> snd (fst e)) \<and>
         sorted_wrt (\<lambda>e e'. \<exists>u v. snd e = Num u \<and> snd e' = Num v \<and> v \<le> u)
           (fst (top_correlations corr_pairs)) \<and>
         (\<exists>rest. mset (fst (top_correlations corr_pairs) @ rest)
                    = mset (filter (\<lambda>e. fst (fst e) \<noteq> snd (fst e)) (unstack m)) \<and>
                 (\<forall>e \<in> set (fst (top_correlations corr_pairs)). \<forall>e' \<in> set rest.
                     \<exists>u v. snd e = Num u \<and> snd e' = Num v \<and> v \<le> u)) \<and>
         (5 \<le> length (filter (\<lambda>e. flt (snd e) 0) (unstack m)) \<longrightarrow>
            length (snd (top_correlations corr_pairs)) = 5 \<and>
            (\<forall>e \<in> set (snd (top_correlations corr_pairs)). flt (snd e) 0) \<and>
            sorted_wrt (\<lambda>e e'. \<exists>u v. snd e = Num u \<and> snd e' = Num v \<and> v \<le> u)
              (snd (top_correlations corr_pairs)) \<and>
            (\<exists>rest. mset (rest @ snd (top_correlations corr_pairs)) = mset (unstack m) \<and>
                    (\<forall>e \<in> set rest. \<forall>e' \<in> set (snd (top_correlations corr_pairs)).
                        \<exists>u v. snd e = Num u \<and> snd e' = Num v \<and> v \<le> u)))"
proof -
  let ?R = "\<lambda>e e'. \<exists>u v. snd e = Num u \<and> snd (e'::(string \<times> string) \<times> fval) = Num v \<and> v \<le> u"
  let ?s = "unstack m"
  let ?p = "corr_pairs"
  let ?ns = "\<lambda>e::(string \<times> string) \<times> fval. fst (fst e) \<noteq> snd (fst e)"
  let ?q = "filter (\<lambda>e. flt (snd e) 1) ?p"
  have ms: "mset ?p = mset ?s" and sb: "sorted_wrt (\<lambda>e e'. before (snd e) (snd e')) ?p"
    using assms(3) by (simp_all add: sort_values_desc_def)
  have sets: "set ?p = set ?s" using ms by (rule mset_eq_setD)
  have scope: "\<forall>e \<in> set ?p. if fst (fst e) = snd (fst e) then snd e = Num 1 else flt (snd e) 1"
    using assms(2) sets by (simp add: list_all_iff)
  have num: "\<forall>e \<in> set ?p. \<exists>v. snd e = Num v"
  proof
    fix e assume "e \<in> set ?p"
    then have "snd e = Num 1 \<or> flt (snd e) 1" using scope by (auto split: if_splits)
    then show "\<exists>v. snd e = Num v" by (cases "snd e") auto
  qed
  have "\<And>e e'. e \<in> set ?p \<Longrightarrow> e' \<in> set ?p \<Longrightarrow> before (snd e) (snd e') \<Longrightarrow> ?R e e'"
  proof -
    fix e e' assume "e \<in> set ?p" "e' \<in> set ?p" "before (snd e) (snd e')"
    then show "?R e e'" using num by (cases "snd e"; cases "snd e'") auto
  qed
  then have sp: "sorted_wrt ?R ?p" using sb by (rule sorted_wrt_mono_rel)
  have tp: "fst (top_correlations ?p) = take 5 ?q"
    and tn: "snd (top_correlations ?p) = drop (length ?p - 5) ?p"
    by (simp_all add: top_correlations_def tail_def Let_def)
  have qns: "?q = filter ?ns ?p"
  proof (rule filter_cong [OF refl])
    fix e assume "e \<in> set ?p"
    then show "flt (snd e) 1 = ?ns e" using scope by (auto split: if_splits)
  qed
  have lq: "length ?q = length (filter ?ns ?s)"
    unfolding qns using ms by (rule length_filter_mset)
  have mq: "mset ?q = mset (filter ?ns ?s)"
    unfolding qns using ms by (metis mset_filter)
  have sq: "sorted_wrt ?R ?q" using sp by (rule sorted_wrt_filter)
  have 1: "mset (map fst ?p) = mset (List.product L L)"
    using ms unstack_labels [OF assms(1)] by (metis mset_map)
  have 2: "length (fst (top_correlations ?p)) = min 5 (length (filter ?ns ?s))"
    unfolding tp using lq by (simp add: min.commute)
  have 3: "\<forall>e \<in> set (fst (top_correlations ?p)). ?ns e"
    unfolding tp qns by (auto dest: in_set_takeD)
  have 4: "sorted_wrt ?R (fst (top_correlations ?p))"
    unfolding tp using sq by (rule sorted_wrt_take)
  have "mset (take 5 ?q @ drop 5 ?q) = mset (filter ?ns ?s)" using mq by simp
  moreover have "\<forall>e \<in> set (take 5 ?q). \<forall>e' \<in> set (drop 5 ?q). ?R e e'"
    using sq by (rule take_drop_before)
  ultimately have 5: "\<exists>rest. mset (fst (top_correlations ?p) @ rest) = mset (filter ?ns ?s) \<and>
      (\<forall>e \<in> set (fst (top_correlations ?p)). \<forall>e' \<in> set rest. ?R e e')"
    unfolding tp by blast
  have 6: "length (snd (top_correlations ?p)) = 5 \<and>
           (\<forall>e \<in> set (snd (top_correlations ?p)). flt (snd e) 0) \<and>
           sorted_wrt ?R (snd (top_correlations ?p)) \<and>
           (\<exists>rest. mset (rest @ snd (top_correlations ?p)) = mset ?s \<and>
                   (\<forall>e \<in> set rest. \<forall>e' \<in> set (snd (top_correlations ?p)). ?R e e'))"
    if five: "5 \<le> length (filter (\<lambda>e. flt (snd e) 0) ?s)"
  proof -
    obtain k where k: "k \<le> length ?p" "filter (\<lambda>e. flt (snd e) 0) ?p = drop k ?p"
      using descending_filter_drop [OF sp] by blast
    have "length (filter (\<lambda>e. flt (snd e) 0) ?p) = length (filter (\<lambda>e. flt (snd e) 0) ?s)"
      using ms by (rule length_filter_mset)
    then have lk: "5 \<le> length ?p - k" using five k(2) by (metis length_drop)
    then have l5: "5 \<le> length ?p" by simp
    have a: "length (snd (top_correlations ?p)) = 5" unfolding tn using l5 by simp
    have "drop (length ?p - 5) ?p = drop (length ?p - 5 - k) (drop k ?p)"
      using lk by simp
    then have "set (drop (length ?p - 5) ?p) \<subseteq> set (filter (\<lambda>e. flt (snd e) 0) ?p)"
      unfolding k(2) by (metis set_drop_subset)
    then have b: "\<forall>e \<in> set (snd (top_correlations ?p)). flt (snd e) 0"
      unfolding tn by auto
    have c: "sorted_wrt ?R (snd (top_correlations ?p))"
      unfolding tn using sp by (rule sorted_wrt_drop)
    have "mset (take (length ?p - 5) ?p @ drop (length ?p - 5) ?p) = mset ?s"
      using ms by simp
    moreover have "\<forall>e \<in> set (take (length ?p - 5) ?p). \<forall>e' \<in> set (drop (length ?p - 5) ?p). ?R e e'"
      using sp by (rule take_drop_before)
    ultimately have d: "\<exists>rest. mset (rest @ snd (top_correlations ?p)) = mset ?s \<and>
                   (\<forall>e \<in> set rest. \<forall>e' \<in> set (snd (top_correlations ?p)). ?R e e')"
      unfolding tn by blast
    show ?thesis using a b c d by blast
  qed
  show ?thesis using 1 2 3 4 5 6 by blast
qed

lemma corr_neg: "corr neg_cols = neg_corr"
  by (simp add: corr_def neg_cols_def neg_corr_def pearson_def Let_def)

lemma unstack_neg:
  "unstack neg_corr =
     [((''Price_in_Lakhs'', ''Price_in_Lakhs''), Num 1),
      ((''Price_in_Lakhs'', ''Size_in_SqFt''), Num (- (1 / 2))),
      ((''Price_in_Lakhs'', ''BHK''), Num (- (1 / 2))),
      ((''Size_in_SqFt'', ''Price_in_Lakhs''), Num (- (1 / 2))),
      ((''Size_in_SqFt'', ''Size_in_SqFt''), Num 1),
      ((''Size_in_SqFt'', ''BHK''), Num (- (1 / 2))),
      ((''BHK'', ''Price_in_Lakhs''), Num (- (1 / 2))),
      ((''BHK'', ''Size_in_SqFt''), Num (- (1 / 2))),
      ((''BHK'', ''BHK''), Num 1)]"
  by (simp add: unstack_def neg_corr_def)

lemma neg_pairs_partition:
  "neg_pairs = filter (\<lambda>e. fst (fst e) = snd (fst e)) (unstack neg_corr)
               @ filter (\<lambda>e. fst (fst e) \<noteq> snd (fst e)) (unstack neg_corr)"
  unfolding unstack_neg by (simp add: neg_pairs_def)

lemma neg_pairs_sorted: "sort_values_desc (unstack neg_corr) neg_pairs"
proof -
  have "mset neg_pairs = mset (unstack neg_corr)"
    unfolding neg_pairs_partition by simp
  moreover have "sorted_wrt (\<lambda>e e'. before (snd e) (snd e')) neg_pairs"
    by (simp add: neg_pairs_def)
  ultimately show ?thesis by (simp add: sort_values_desc_def)
qed


theorem top_correlations_extracted_witness:
  "labelled [''Price_in_Lakhs'', ''Size_in_SqFt'', ''BHK''] neg_corr \<and>
   list_all (\<lambda>e. if fst (fst e) = snd (fst e) then snd e = Num 1 else flt (snd e) 1)
     (unstack neg_corr) \<and>
   sort_values_desc (unstack neg_corr) neg_pairs \<and>
   5 \<le> length (filter (\<lambda>e. flt (snd e) 0) (unstack neg_corr)) \<and>
   mset (map fst neg_pairs)
     = mset (List.product [''Price_in_Lakhs'', ''Size_in_SqFt'', ''BHK'']
                          [''Price_in_Lakhs'', ''Size_in_SqFt'', ''BHK'']) \<and>
   length (fst (top_correlations neg_pairs)) = 5 \<and>
   length (snd (top_correlations neg_pairs)) = 5 \<and>
   list_all (\<lambda>e. flt (snd e) 0) (snd (top_correlations neg_pairs))"
proof -
  have a: "labelled [''Price_in_Lakhs'', ''Size_in_SqFt'', ''BHK''] neg_corr"
    by (simp add: labelled_def neg_corr_def)
  have b: "list_all (\<lambda>e. if fst (fst e) = snd (fst e) then snd e = Num 1 else flt (snd e) 1)
             (unstack neg_corr)"
    unfolding unstack_neg by simp
  have c: "sort_values_desc (unstack neg_corr) neg_pairs" by (rule neg_pairs_sorted)
  have d: "5 \<le> length (filter (\<lambda>e. flt (snd e) 0) (unstack neg_corr))"
    unfolding unstack_neg by simp
  have e: "length (filter (\<lambda>e. fst (fst e) \<noteq> snd (fst e)) (unstack neg_corr)) = 6"
    unfolding unstack_neg by simp
  note T = top_correlations_extracted [OF a b c]
  have c1: "mset (map fst neg_pairs)
     = mset (List.product [''Price_in_Lakhs'', ''Size_in_SqFt'', ''BHK'']
                          [''Price_in_Lakhs'', ''Size_in_SqFt'', ''BHK''])"
    by (rule T [THEN conjunct1])
  have c2: "length (fst (top_correlations neg_pairs)) = 5"
    using T [THEN conjunct2, THEN conjunct1] unfolding e by simp
  note T6 = T [THEN conjunct2, THEN conjunct2, THEN conjunct2, THEN conjunct2, THEN conjunct2,
               THEN mp, OF d]
  have c6: "length (snd (top_correlations neg_pairs)) = 5"
    by (rule T6 [THEN conjunct1])
  have c7: "list_all (\<lambda>e. flt (snd e) 0) (snd (top_correlations neg_pairs))"
    using T6 [THEN conjunct2, THEN conjunct1] by (simp only: list_all_iff)
  show ?thesis
    by (intro conjI) (rule a b c d c1 c2 c6 c7)+
qed

lemma corr_abc: "corr abc_cols = abc_corr"
  by (simp add: corr_def abc_cols_def abc_corr_def pearson_def Let_def)

lemma unstack_abc:
  "unstack abc_corr =
     [((''Price_in_Lakhs'', ''Price_in_Lakhs''), Num 1),
      ((''Price_in_Lakhs'', ''Size_in_SqFt''), Num (1 / 2)),
      ((''Price_in_Lakhs'', ''BHK''), Num (- (1 / 2))),
      ((''Size_in_SqFt'', ''Price_in_Lakhs''), Num (1 / 2)),
      ((''Size_in_SqFt'', ''Size_in_SqFt''), Num 1),
      ((''Size_in_SqFt'', ''BHK''), Num (- 1)),
      ((''BHK'', ''Price_in_Lakhs''), Num (- (1 / 2))),
      ((''BHK'', ''Size_in_SqFt''), Num (- 1)),
      ((''BHK'', ''BHK''), Num 1)]"
  by (simp add: unstack_def abc_corr_def)

lemma descending_values_unique:
  assumes "sort_values_desc s p" and "\<forall>e \<in> set s. \<exists>v. snd e = Num v"
  shows "map (\<lambda>e. case snd e of Num v \<Rightarrow> - v | NaN \<Rightarrow> 0) p
           = sort (map (\<lambda>e. case snd e of Num v \<Rightarrow> - v | NaN \<Rightarrow> 0) s)"
proof -
  let ?k = "\<lambda>e::'a \<times> fval. case snd e of Num v \<Rightarrow> - v | NaN \<Rightarrow> 0"
  have ms: "mset p = mset s" and sb: "sorted_wrt (\<lambda>e e'. before (snd e) (snd e')) p"
    using assms(1) by (simp_all add: sort_values_desc_def)
  have num: "\<forall>e \<in> set p. \<exists>v. snd e = Num v"
    using assms(2) mset_eq_setD [OF ms] by simp
  have "\<And>e e'. e \<in> set p \<Longrightarrow> e' \<in> set p \<Longrightarrow> before (snd e) (snd e') \<Longrightarrow> ?k e \<le> ?k e'"
  proof -
    fix e e' assume "e \<in> set p" "e' \<in> set p" "before (snd e) (snd e')"
    then show "?k e \<le> ?k e'" using num by (cases "snd e"; cases "snd e'") auto
  qed
  then have "sorted_wrt (\<lambda>e e'. ?k e \<le> ?k e') p" using sb by (rule sorted_wrt_mono_rel)
  then have "sorted (map ?k p)" by (simp only: sorted_map)
  moreover have "mset (map ?k p) = mset (map ?k s)" using ms by (metis mset_map)
  ultimately show ?thesis by (metis properties_for_sort)
qed

lemma map_eq_9:
  "map f p = [a1, a2, a3, a4, a5, a6, a7, a8, a9] \<Longrightarrow>
     \<exists>e1 e2 e3 e4 e5 e6 e7 e8 e9. p = [e1, e2, e3, e4, e5, e6, e7, e8, e9] \<and>
        f e1 = a1 \<and> f e2 = a2 \<and> f e3 = a3 \<and> f e4 = a4 \<and> f e5 = a5 \<and>
        f e6 = a6 \<and> f e7 = a7 \<and> f e8 = a8 \<and> f e9 = a9"
  by (clarsimp simp: map_eq_Cons_conv)

lemma key_value:
  "\<exists>v. snd e = Num v \<Longrightarrow> (case snd e of Num v \<Rightarrow> - v | NaN \<Rightarrow> 0) = x \<Longrightarrow> snd e = Num (- x)"
  by (cases "snd e") auto

lemma abc_half:
  "e \<in> set (unstack abc_corr) \<Longrightarrow> snd e = Num (1 / 2) \<Longrightarrow>
     unordered e = {''Price_in_Lakhs'', ''Size_in_SqFt''}"
  unfolding unstack_abc by (auto simp: unordered_def)

lemma abc_lists:
  assumes "sort_values_desc (unstack abc_corr) p"
  shows "\<not> distinct (map unordered (fst (top_correlations p))) \<and>
         \<not> sorted_wrt (\<lambda>e e'. \<exists>u v. snd e = Num u \<and> snd e' = Num v \<and> u \<le> v)
             (snd (top_correlations p))"
proof -
  let ?k = "\<lambda>e::(string \<times> string) \<times> fval. case snd e of Num v \<Rightarrow> - v | NaN \<Rightarrow> 0"
  have "\<forall>e \<in> set (unstack abc_corr). snd e \<noteq> NaN"
    unfolding unstack_abc by simp
  then have num: "\<forall>e \<in> set (unstack abc_corr). \<exists>v. snd e = Num v"
    by (metis fval.exhaust)
  have "map ?k p = sort (map ?k (unstack abc_corr))"
    using descending_values_unique [OF assms num] .
  also have "\<dots> = [- 1, - 1, - 1, - (1 / 2), - (1 / 2), 1 / 2, 1 / 2, 1, 1]"
    unfolding unstack_abc by simp
  finally have keys: "map ?k p = [- 1, - 1, - 1, - (1 / 2), - (1 / 2), 1 / 2, 1 / 2, 1, 1]" .
  obtain e1 e2 e3 e4 e5 e6 e7 e8 e9 where p: "p = [e1, e2, e3, e4, e5, e6, e7, e8, e9]"
    and k: "?k e1 = - 1" "?k e2 = - 1" "?k e3 = - 1" "?k e4 = - (1 / 2)" "?k e5 = - (1 / 2)"
      "?k e6 = 1 / 2" "?k e7 = 1 / 2" "?k e8 = 1" "?k e9 = 1"
    using map_eq_9 [OF keys] by blast
  have sets: "set p = set (unstack abc_corr)"
    using assms mset_eq_setD [of p "unstack abc_corr"] by (simp add: sort_values_desc_def)
  have mem: "\<And>e. e \<in> set p \<Longrightarrow> \<exists>v. snd e = Num v"
    using num sets by simp
  have i: "e1 \<in> set p" "e2 \<in> set p" "e3 \<in> set p" "e4 \<in> set p" "e5 \<in> set p"
      "e6 \<in> set p" "e7 \<in> set p" "e8 \<in> set p" "e9 \<in> set p"
    by (simp_all add: p)
  have v1: "snd e1 = Num 1" using key_value [OF mem [OF i(1)] k(1)] by simp
  have v2: "snd e2 = Num 1" using key_value [OF mem [OF i(2)] k(2)] by simp
  have v3: "snd e3 = Num 1" using key_value [OF mem [OF i(3)] k(3)] by simp
  have v4: "snd e4 = Num (1 / 2)" using key_value [OF mem [OF i(4)] k(4)] by simp
  have v5: "snd e5 = Num (1 / 2)" using key_value [OF mem [OF i(5)] k(5)] by simp
  have v6: "snd e6 = Num (- (1 / 2))" using key_value [OF mem [OF i(6)] k(6)] by simp
  have v7: "snd e7 = Num (- (1 / 2))" using key_value [OF mem [OF i(7)] k(7)] by simp
  have v8: "snd e8 = Num (- 1)" using key_value [OF mem [OF i(8)] k(8)] by simp
  have v9: "snd e9 = Num (- 1)" using key_value [OF mem [OF i(9)] k(9)] by simp
  have u4: "unordered e4 = {''Price_in_Lakhs'', ''Size_in_SqFt''}"
    using abc_half [OF _ v4] i(4) sets by simp
  have u5: "unordered e5 = {''Price_in_Lakhs'', ''Size_in_SqFt''}"
    using abc_half [OF _ v5] i(5) sets by simp
  have f: "filter (\<lambda>e. flt (snd e) 1) p = [e4, e5, e6, e7, e8, e9]"
    by (simp add: p v1 v2 v3 v4 v5 v6 v7 v8 v9)
  have tp: "fst (top_correlations p) = [e4, e5, e6, e7, e8]"
    by (simp add: top_correlations_def Let_def f)
  have tn: "snd (top_correlations p) = [e5, e6, e7, e8, e9]"
    by (simp add: top_correlations_def Let_def tail_def p)
  have a: "\<not> distinct (map unordered (fst (top_correlations p)))"
    unfolding tp using u4 u5 by simp
  have "\<not> (\<exists>u v. snd e5 = Num u \<and> snd e6 = Num v \<and> u \<le> v)"
    unfolding v5 v6 by simp
  then have b: "\<not> sorted_wrt (\<lambda>e e'. \<exists>u v. snd e = Num u \<and> snd e' = Num v \<and> u \<le> v)
             (snd (top_correlations p))"
    unfolding tn by simp
  show ?thesis using a b by (rule conjI)
qed

text \<open>
  The claim as stated fails on the correlation matrix of the columns price 1, 2, 3,
  size 1, 3, 2 and BHK 3, 1, 2, whatever order the sort gives to equal coefficients:
  the top positive list names the pair of price and size twice, once in each
  orientation, and the top negative list starts with the coefficient 1/2 and goes
  down to -1, so it is not in ascending order.
\<close>

theorem top_correlations_counterexample:
  "\<not> (\<exists>corr_pairs. sort_values_desc (unstack abc_corr) corr_pairs \<and>
        (distinct (map unordered (fst (top_correlations corr_pairs))) \<or>
         sorted_wrt (\<lambda>e e'. \<exists>u v. snd e = Num u \<and> snd e' = Num v \<and> u \<le> v)
           (snd (top_correlations corr_pairs))))"
proof
  assume "\<exists>corr_pairs. sort_values_desc (unstack abc_corr) corr_pairs \<and>
        (distinct (map unordered (fst (top_correlations corr_pairs))) \<or>
         sorted_wrt (\<lambda>e e'. \<exists>u v. snd e = Num u \<and> snd e' = Num v \<and> u \<le> v)
           (snd (top_correlations corr_pairs)))"
  then obtain p where s: "sort_values_desc (unstack abc_corr) p"
    and c: "distinct (map unordered (fst (top_correlations p))) \<or>
         sorted_wrt (\<lambda>e e'. \<exists>u v. snd e = Num u \<and> snd e' = Num v \<and> u \<le> v)
           (snd (top_correlations p))"
    by blast
  show False using abc_lists [OF s] c by blast
qed

section \<open>Insight rules\<close>

lemma fold_best:
  "fold (\<lambda>x best. if snd x > snd best then x else best) es (e :: string \<times> real) \<in> set (e # es) \<and>
   (\<forall>x \<in> set (e # es). snd x \<le> snd (fold (\<lambda>x best. if snd x > snd best then x else best) es e))"
proof (induction es arbitrary: e)
  case Nil
  then show ?case by simp
next
  case (Cons a es)
  let ?e' = "if snd a > snd e then a else e"
  have ih: "fold (\<lambda>x best. if snd x > snd best then x else best) es ?e' \<in> set (?e' # es) \<and>
        (\<forall>x \<in> set (?e' # es). snd x \<le> snd (fold (\<lambda>x best. if snd x > snd best then x else best) es ?e'))"
    by (rule Cons.IH)
  have f: "fold (\<lambda>x best. if snd x > snd best then x else best) (a # es) e
         = fold (\<lambda>x best. if snd x > snd best then x else best) es ?e'" by simp
  have "snd e \<le> snd ?e'" "snd a \<le> snd ?e'" by auto
  moreover have "snd ?e' \<le> snd (fold (\<lambda>x best. if snd x > snd best then x else best) es ?e')"
    using ih by simp
  ultimately have "snd e \<le> snd (fold (\<lambda>x best. if snd x > snd best then x else best) es ?e')"
    "snd a \<le> snd (fold (\<lambda>x best. if snd x > snd best then x else best) es ?e')"
    by linarith+
  then show ?case unfolding f using ih by auto
qed

lemma idxmax_greatest:
  assumes "s \<noteq> []"
  shows "\<exists>k v. idxmax s = Inr k \<and> (k, v) \<in> set s \<and> (\<forall>e \<in> set s. snd e \<le> v)"
proof -
  obtain e es where s: "s = e # es" using assms by (cases s) auto
  let ?b = "fold (\<lambda>x best. if snd x > snd best then x else best) es e"
  have "idxmax s = Inr (fst ?b)" by (simp add: idxmax_def s)
  moreover have "(fst ?b, snd ?b) \<in> set s" "\<forall>x \<in> set s. snd x \<le> snd ?b"
    using fold_best [of es e] by (simp_all add: s)
  ultimately show ?thesis by blast
qed

lemma fold_max_mem: "fold max ys (x::real) \<in> set (x # ys)"
proof (induction ys arbitrary: x)
  case Nil
  then show ?case by simp
next
  case (Cons z zs)
  have "fold max zs (max z x) \<in> set (max z x # zs)" by (rule Cons.IH)
  moreover have "max z x = z \<or> max z x = x" by (simp add: max_def)
  ultimately show ?case by auto
qed

lemma series_max_greatest:
  assumes "xs \<noteq> []"
  shows "\<exists>m. series_max xs = Num m \<and> m \<in> set xs \<and> (\<forall>x \<in> set xs. x \<le> m)"
proof -
  obtain y ys where xs: "xs = y # ys" using assms by (cases xs) auto
  have "series_max xs = Num (fold max ys y)" by (simp add: series_max_def xs)
  moreover have "fold max ys y \<in> set xs" using fold_max_mem [of ys y] by (simp add: xs)
  moreover have "\<forall>x \<in> set xs. x \<le> fold max ys y"
    using fold_max_ge [of y ys] fold_max_ge_mem [of _ ys y] by (auto simp: xs)
  ultimately show ?thesis by blast
qed

lemma fold_min_mem: "fold min ys (x::real) \<in> set (x # ys)"
proof (induction ys arbitrary: x)
  case Nil
  then show ?case by simp
next
  case (Cons z zs)
  have "fold min zs (min z x) \<in> set (min z x # zs)" by (rule Cons.IH)
  moreover have "min z x = z \<or> min z x = x" by (simp add: min_def)
  ultimately show ?case by auto
qed

lemma series_min_least:
  assumes "xs \<noteq> []"
  shows "\<exists>m. series_min xs = Num m \<and> m \<in> set xs \<and> (\<forall>x \<in> set xs. m \<le> x)"
proof -
  obtain y ys where xs: "xs = y # ys" using assms by (cases xs) auto
  have "series_min xs = Num (fold min ys y)" by (simp add: series_min_def xs)
  moreover have "fold min ys y \<in> set xs" using fold_min_mem [of ys y] by (simp add: xs)
  moreover have "\<forall>x \<in> set xs. fold min ys y \<le> x"
    using fold_min_le [of ys y] fold_min_le_mem [of _ ys y] by (auto simp: xs)
  ultimately show ?thesis by blast
qed

lemma top_city_greatest:
  assumes "rows df \<noteq> []"
  shows "\<exists>top_city. idxmax (groupby_city_mean lib df) = Inr top_city \<and>
           top_city \<in> City ` set (rows df) \<and>
           (\<forall>c \<in> City ` set (rows df).
               group_mean lib (map Price_in_Lakhs (filter (\<lambda>r. City r = c) (rows df)))
                 \<le> group_mean lib (map Price_in_Lakhs (filter (\<lambda>r. City r = top_city) (rows df)))) \<and>
           series_max (map snd (groupby_city_mean lib df))
             = Num (group_mean lib (map Price_in_Lakhs (filter (\<lambda>r. City r = top_city) (rows df))))"
proof -
  let ?g = "\<lambda>c. group_mean lib (map Price_in_Lakhs (filter (\<lambda>r. City r = c) (rows df)))"
  have gs: "set (groupby_city_mean lib df) = (\<lambda>c. (c, ?g c)) ` City ` set (rows df)"
    by (auto simp: groupby_city_mean_def)
  have "length (groupby_city_mean lib df) = length (remdups (map City (rows df)))"
    by (simp add: groupby_city_mean_def)
  moreover have "remdups (map City (rows df)) \<noteq> []" using assms by simp
  ultimately have ne: "groupby_city_mean lib df \<noteq> []" by auto
  obtain k v where kv: "idxmax (groupby_city_mean lib df) = Inr k"
      "(k, v) \<in> set (groupby_city_mean lib df)"
      "\<forall>e \<in> set (groupby_city_mean lib df). snd e \<le> v"
    using idxmax_greatest [OF ne] by blast
  have k: "k \<in> City ` set (rows df)" and v: "v = ?g k" using kv(2) unfolding gs by auto
  have le: "\<forall>c \<in> City ` set (rows df). ?g c \<le> ?g k"
  proof
    fix c assume "c \<in> City ` set (rows df)"
    then have "(c, ?g c) \<in> set (groupby_city_mean lib df)" unfolding gs by blast
    then show "?g c \<le> ?g k" using kv(3) v by force
  qed
  have "map snd (groupby_city_mean lib df) \<noteq> []" using ne by simp
  then obtain m where m: "series_max (map snd (groupby_city_mean lib df)) = Num m"
      "m \<in> set (map snd (groupby_city_mean lib df))"
      "\<forall>x \<in> set (map snd (groupby_city_mean lib df)). x \<le> m"
    using series_max_greatest by blast
  have "m \<le> v" using m(2) kv(3) by auto
  moreover have "v \<le> m" using m(3) kv(2) by force
  ultimately have "m = ?g k" using v by simp
  then show ?thesis using kv(1) k le m(1) by blast
qed

lemma common_bhk_head:
  assumes "rows df \<noteq> []"
  shows "\<exists>m. common_bhk df = Common m \<and> m \<in> BHK ` set (rows df) \<and>
           (\<forall>w \<in> BHK ` set (rows df).
               count_list (map BHK (rows df)) w \<le> count_list (map BHK (rows df)) m) \<and>
           (\<forall>v \<in> BHK ` set (rows df).
               (\<forall>w \<in> BHK ` set (rows df).
                   count_list (map BHK (rows df)) w \<le> count_list (map BHK (rows df)) v)
               \<longrightarrow> m \<le> v)"
proof -
  let ?xs = "map BHK (rows df)"
  have sx: "set ?xs = BHK ` set (rows df)" by simp
  have "?xs \<noteq> []" using assms by simp
  then have "mode ?xs \<noteq> []" by (rule mode_nonempty)
  then obtain m ms where eq: "mode ?xs = m # ms" by (cases "mode ?xs") auto
  have "sorted (m # ms)" using sorted_mode [of ?xs] by (simp add: eq)
  then have least: "\<forall>v \<in> set (mode ?xs). m \<le> v" by (auto simp: eq)
  have "m \<in> set (mode ?xs)" by (simp add: eq)
  then have "m \<in> set ?xs \<and> (\<forall>w \<in> set ?xs. count_list ?xs w \<le> count_list ?xs m)"
    unfolding set_mode by blast
  moreover have "\<forall>v \<in> set ?xs. (\<forall>w \<in> set ?xs. count_list ?xs w \<le> count_list ?xs v) \<longrightarrow> m \<le> v"
    using least unfolding set_mode by blast
  moreover have "common_bhk df = Common m" by (simp add: common_bhk_def eq)
  ultimately show ?thesis unfolding sx by blast
qed

text \<open>
  C9. Whatever numbers the library returns for the skewness, the correlation and
  the group means, the insight generator returns, for a view with at least one
  record, a list of one to five insights whose rule numbers increase strictly. A
  price-distribution insight is present iff the skewness is a number above 1 or
  below -1, and it is labelled right-skewed iff the skewness is positive. A
  size-price insight is present iff the correlation is a number above 0.5 or below
  0, with the positive wording above 0.5 and the negative wording below 0. A city
  insight is present iff the view has a City column; its city is a city of the view
  whose group mean is the largest, reported with that mean. A configuration insight
  is present iff the view has a BHK column; its value has the largest frequency and
  is the smallest such value. The last insight is always the price-per-area range,
  with the least and the greatest price-per-area of the view and their mean.
\<close>

theorem insights_rule_order:
  assumes "rows filtered_df \<noteq> []"
  shows "\<exists>insights. display_insights_summary lib filtered_df = Inr insights \<and>
           1 \<le> length insights \<and> length insights \<le> 5 \<and>
           sorted_wrt (<) (map rule_no insights) \<and>
           ((\<exists>b v. Price_Distribution b v \<in> set insights)
              \<longleftrightarrow> (\<exists>s. Series_skew lib (map Price_in_Lakhs (rows filtered_df)) = Num s \<and>
                       (1 < s \<or> s < - 1))) \<and>
           (\<forall>b v. Price_Distribution b v \<in> set insights
              \<longrightarrow> v = Series_skew lib (map Price_in_Lakhs (rows filtered_df)) \<and>
                  (\<exists>s. v = Num s \<and> (b \<longleftrightarrow> 0 < s))) \<and>
           ((\<exists>v. Size_Price_Positive v \<in> set insights \<or> Size_Price_Negative v \<in> set insights)
              \<longleftrightarrow> (\<exists>c. Series_corr lib (map Size_in_SqFt (rows filtered_df))
                                        (map Price_in_Lakhs (rows filtered_df)) = Num c \<and>
                       (1 / 2 < c \<or> c < 0))) \<and>
           (\<forall>v. Size_Price_Positive v \<in> set insights
              \<longrightarrow> v = Series_corr lib (map Size_in_SqFt (rows filtered_df))
                                     (map Price_in_Lakhs (rows filtered_df)) \<and>
                  (\<exists>c. v = Num c \<and> 1 / 2 < c)) \<and>
           (\<forall>v. Size_Price_Negative v \<in> set insights
              \<longrightarrow> v = Series_corr lib (map Size_in_SqFt (rows filtered_df))
                                     (map Price_in_Lakhs (rows filtered_df)) \<and>
                  (\<exists>c. v = Num c \<and> c < 0)) \<and>
           ((\<exists>c p. Most_Expensive_City c p \<in> set insights)
              \<longleftrightarrow> ''City'' \<in> set (columns filtered_df)) \<and>
           (\<forall>c p. Most_Expensive_City c p \<in> set insights
              \<longrightarrow> c \<in> City ` set (rows filtered_df) \<and>
                  p = Num (group_mean lib
                             (map Price_in_Lakhs (filter (\<lambda>r. City r = c) (rows filtered_df)))) \<and>
                  (\<forall>c' \<in> City ` set (rows filtered_df).
                      group_mean lib
                        (map Price_in_Lakhs (filter (\<lambda>r. City r = c') (rows filtered_df)))
                      \<le> group_mean lib
                           (map Price_in_Lakhs (filter (\<lambda>r. City r = c) (rows filtered_df))))) \<and>
           ((\<exists>b. Popular_Configuration b \<in> set insights)
              \<longleftrightarrow> ''BHK'' \<in> set (columns filtered_df)) \<and>
           (\<forall>b. Popular_Configuration b \<in> set insights
              \<longrightarrow> (\<exists>m. b = Common m \<and> m \<in> BHK ` set (rows filtered_df) \<and>
                       (\<forall>w \<in> BHK ` set (rows filtered_df).
                           count_list (map BHK (rows filtered_df)) w
                             \<le> count_list (map BHK (rows filtered_df)) m) \<and>
                       (\<forall>v \<in> BHK ` set (rows filtered_df).
                           (\<forall>w \<in> BHK ` set (rows filtered_df).
                               count_list (map BHK (rows filtered_df)) w
                                 \<le> count_list (map BHK (rows filtered_df)) v)
                           \<longrightarrow> m \<le> v))) \<and>
           (\<exists>lo hi. last insights
                       = Price_Range (Num lo) (Num hi)
                           (Num (sum_list (map Price_per_SqFt (rows filtered_df))
                                 / real (length (rows filtered_df)))) \<and>
                    lo \<in> Price_per_SqFt ` set (rows filtered_df) \<and>
                    (\<forall>r \<in> set (rows filtered_df). lo \<le> Price_per_SqFt r) \<and>
                    hi \<in> Price_per_SqFt ` set (rows filtered_df) \<and>
                    (\<forall>r \<in> set (rows filtered_df). Price_per_SqFt r \<le> hi))"
proof -
  let ?sk = "Series_skew lib (map Price_in_Lakhs (rows filtered_df))"
  let ?c = "Series_corr lib (map Size_in_SqFt (rows filtered_df))
                            (map Price_in_Lakhs (rows filtered_df))"
  let ?g = "\<lambda>c. group_mean lib (map Price_in_Lakhs (filter (\<lambda>r. City r = c) (rows filtered_df)))"
  let ?pps = "map Price_per_SqFt (rows filtered_df)"
  obtain top_city where ic: "idxmax (groupby_city_mean lib filtered_df) = Inr top_city"
    and tc: "top_city \<in> City ` set (rows filtered_df)"
      "\<forall>c \<in> City ` set (rows filtered_df). ?g c \<le> ?g top_city"
    and sm: "series_max (map snd (groupby_city_mean lib filtered_df)) = Num (?g top_city)"
    using top_city_greatest [OF assms, of lib] by blast
  obtain m where cb: "common_bhk filtered_df = Common m"
    and md: "m \<in> BHK ` set (rows filtered_df)"
      "\<forall>w \<in> BHK ` set (rows filtered_df).
          count_list (map BHK (rows filtered_df)) w \<le> count_list (map BHK (rows filtered_df)) m"
      "\<forall>v \<in> BHK ` set (rows filtered_df).
          (\<forall>w \<in> BHK ` set (rows filtered_df).
              count_list (map BHK (rows filtered_df)) w \<le> count_list (map BHK (rows filtered_df)) v)
          \<longrightarrow> m \<le> v"
    using common_bhk_head [OF assms] by blast
  have pne: "?pps \<noteq> []" using assms by simp
  obtain lo where lo: "series_min ?pps = Num lo" "lo \<in> set ?pps" "\<forall>x \<in> set ?pps. lo \<le> x"
    using series_min_least [OF pne] by blast
  obtain hi where hi: "series_max ?pps = Num hi" "hi \<in> set ?pps" "\<forall>x \<in> set ?pps. x \<le> hi"
    using series_max_greatest [OF pne] by blast
  have av: "mean ?pps = Num (sum_list ?pps / real (length (rows filtered_df)))"
    using pne by (simp add: mean_def)
  let ?A = "if fgt (fabs ?sk) 1 then [Price_Distribution (fgt ?sk 0) ?sk] else []"
  let ?B = "if fgt ?c (1 / 2) then [Size_Price_Positive ?c]
            else if flt ?c 0 then [Size_Price_Negative ?c] else []"
  let ?C = "if ''City'' \<in> set (columns filtered_df)
            then [Most_Expensive_City top_city (Num (?g top_city))] else []"
  let ?D = "if ''BHK'' \<in> set (columns filtered_df)
            then [Popular_Configuration (Common m)] else []"
  let ?E = "Price_Range (Num lo) (Num hi) (Num (sum_list ?pps / real (length (rows filtered_df))))"
  let ?ins = "?A @ ?B @ ?C @ ?D @ [?E]"
  have eq: "display_insights_summary lib filtered_df = Inr ?ins"
    by (simp add: display_insights_summary_def Let_def ic sm cb lo(1) hi(1) av)
  have skc: "fgt (fabs ?sk) 1 \<longleftrightarrow> (\<exists>s. ?sk = Num s \<and> (1 < s \<or> s < - 1))"
    by (cases ?sk) auto
  have skp: "\<exists>s. ?sk = Num s \<and> (fgt ?sk 0 \<longleftrightarrow> 0 < s)" if "fgt (fabs ?sk) 1"
    using that by (cases ?sk) auto
  have cc: "fgt ?c (1 / 2) \<or> flt ?c 0 \<longleftrightarrow> (\<exists>c. ?c = Num c \<and> (1 / 2 < c \<or> c < 0))"
    by (cases ?c) auto
  have cp: "\<exists>c. ?c = Num c \<and> 1 / 2 < c" if "fgt ?c (1 / 2)"
    using that by (cases ?c) auto
  have cn: "\<exists>c. ?c = Num c \<and> c < 0" if "flt ?c 0"
    using that by (cases ?c) auto
  have 1: "1 \<le> length ?ins" by simp
  have 2: "length ?ins \<le> 5" by simp
  have 3: "sorted_wrt (<) (map rule_no ?ins)" by simp
  have 4: "(\<exists>b v. Price_Distribution b v \<in> set ?ins)
             \<longleftrightarrow> (\<exists>s. ?sk = Num s \<and> (1 < s \<or> s < - 1))"
    unfolding skc [symmetric] by auto
  have 5: "\<forall>b v. Price_Distribution b v \<in> set ?ins
             \<longrightarrow> v = ?sk \<and> (\<exists>s. v = Num s \<and> (b \<longleftrightarrow> 0 < s))"
    using skp by auto
  have 6: "(\<exists>v. Size_Price_Positive v \<in> set ?ins \<or> Size_Price_Negative v \<in> set ?ins)
             \<longleftrightarrow> (\<exists>c. ?c = Num c \<and> (1 / 2 < c \<or> c < 0))"
    unfolding cc [symmetric] by auto
  have 7: "\<forall>v. Size_Price_Positive v \<in> set ?ins \<longrightarrow> v = ?c \<and> (\<exists>c. v = Num c \<and> 1 / 2 < c)"
    using cp by auto
  have 8: "\<forall>v. Size_Price_Negative v \<in> set ?ins \<longrightarrow> v = ?c \<and> (\<exists>c. v = Num c \<and> c < 0)"
    using cn by auto
  have 9: "(\<exists>c p. Most_Expensive_City c p \<in> set ?ins) \<longleftrightarrow> ''City'' \<in> set (columns filtered_df)"
    by auto
  have 10: "\<forall>c p. Most_Expensive_City c p \<in> set ?ins
              \<longrightarrow> c \<in> City ` set (rows filtered_df) \<and> p = Num (?g c) \<and>
                  (\<forall>c' \<in> City ` set (rows filtered_df). ?g c' \<le> ?g c)"
    using tc by auto
  have 11: "(\<exists>b. Popular_Configuration b \<in> set ?ins) \<longleftrightarrow> ''BHK'' \<in> set (columns filtered_df)"
    by auto
  have 12: "\<forall>b. Popular_Configuration b \<in> set ?ins
              \<longrightarrow> (\<exists>m. b = Common m \<and> m \<in> BHK ` set (rows filtered_df) \<and>
                       (\<forall>w \<in> BHK ` set (rows filtered_df).
                           count_list (map BHK (rows filtered_df)) w
                             \<le> count_list (map BHK (rows filtered_df)) m) \<and>
                       (\<forall>v \<in> BHK ` set (rows filtered_df).
                           (\<forall>w \<in> BHK ` set (rows filtered_df).
                               count_list (map BHK (rows filtered_df)) w
                                 \<le> count_list (map BHK (rows filtered_df)) v)
                           \<longrightarrow> m \<le> v))"
    using md by auto
  have 13: "\<exists>lo hi. last ?ins = Price_Range (Num lo) (Num hi)
                           (Num (sum_list ?pps / real (length (rows filtered_df)))) \<and>
                    lo \<in> Price_per_SqFt ` set (rows filtered_df) \<and>
                    (\<forall>r \<in> set (rows filtered_df). lo \<le> Price_per_SqFt r) \<and>
                    hi \<in> Price_per_SqFt ` set (rows filtered_df) \<and>
                    (\<forall>r \<in> set (rows filtered_df). Price_per_SqFt r \<le> hi)"
    using lo(2,3) hi(2,3) by auto
  show ?thesis
    by (rule exI [of _ ?ins]) (intro conjI; (rule eq 1 2 3 4 5 6 7 8 9 10 11 12 13))
qed

theorem insights_rule_order_witness:
  "rows ex3 \<noteq> [] \<and>
   (\<exists>insights. display_insights_summary lib0 ex3 = Inr insights \<and>
                1 \<le> length insights \<and> length insights \<le> 5 \<and>
                Most_Expensive_City ''A'' (Num 150) \<in> set insights)"
proof -
  have ne: "rows ex3 \<noteq> []" by (simp add: ex3_def)
  have cities: "City ` set (rows ex3) = {''A'', ''B''}" by (auto simp: ex3_def)
  have ga: "group_mean lib0 (map Price_in_Lakhs (filter (\<lambda>r. City r = ''A'') (rows ex3))) = 150"
    by (simp add: lib0_def ex3_def)
  have gb: "group_mean lib0 (map Price_in_Lakhs (filter (\<lambda>r. City r = ''B'') (rows ex3))) = 50"
    by (simp add: lib0_def ex3_def)
  have col: "''City'' \<in> set (columns ex3)" by (simp add: ex3_def)
  from insights_rule_order [OF ne, of lib0]
  have "\<exists>insights. display_insights_summary lib0 ex3 = Inr insights \<and>
                1 \<le> length insights \<and> length insights \<le> 5 \<and>
                Most_Expensive_City ''A'' (Num 150) \<in> set insights"
  proof (elim exE conjE)
    fix insights
    assume i: "display_insights_summary lib0 ex3 = Inr insights"
      "1 \<le> length insights" "length insights \<le> 5"
    assume pres: "(\<exists>c p. Most_Expensive_City c p \<in> set insights) \<longleftrightarrow> ''City'' \<in> set (columns ex3)"
    assume city: "\<forall>c p. Most_Expensive_City c p \<in> set insights
              \<longrightarrow> c \<in> City ` set (rows ex3) \<and>
                  p = Num (group_mean lib0
                             (map Price_in_Lakhs (filter (\<lambda>r. City r = c) (rows ex3)))) \<and>
                  (\<forall>c' \<in> City ` set (rows ex3).
                      group_mean lib0
                        (map Price_in_Lakhs (filter (\<lambda>r. City r = c') (rows ex3)))
                      \<le> group_mean lib0
                           (map Price_in_Lakhs (filter (\<lambda>r. City r = c) (rows ex3))))"
    obtain c p where cp: "Most_Expensive_City c p \<in> set insights" using pres col by blast
    have c1: "c \<in> City ` set (rows ex3)"
      and c2: "p = Num (group_mean lib0
                             (map Price_in_Lakhs (filter (\<lambda>r. City r = c) (rows ex3))))"
      and c3: "\<forall>c' \<in> City ` set (rows ex3).
                      group_mean lib0
                        (map Price_in_Lakhs (filter (\<lambda>r. City r = c') (rows ex3)))
                      \<le> group_mean lib0
                           (map Price_in_Lakhs (filter (\<lambda>r. City r = c) (rows ex3)))"
      using city [rule_format, OF cp] by blast+
    have c: "c = ''A'' \<or> c = ''B''" using c1 unfolding cities by simp
    have "c \<noteq> ''B''"
    proof
      assume b: "c = ''B''"
      have "''A'' \<in> City ` set (rows ex3)" unfolding cities by simp
      with c3 have "group_mean lib0 (map Price_in_Lakhs (filter (\<lambda>r. City r = ''A'') (rows ex3)))
            \<le> group_mean lib0 (map Price_in_Lakhs (filter (\<lambda>r. City r = c) (rows ex3)))"
        by (rule bspec)
      then show False unfolding b ga gb by simp
    qed
    then have ca: "c = ''A''" using c by simp
    have "p = Num 150" using c2 unfolding ca ga .
    then have "Most_Expensive_City ''A'' (Num 150) \<in> set insights" using cp ca by simp
    then show ?thesis using i by blast
  qed
  then show ?thesis using ne by (rule conjI [rotated])
qed

section \<open>The view without records\<close>

lemma rows_view_none: "rows view_none = []"
  by (simp add: view_none_def apply_filters_def mask_rows_def ex3_def)

lemma columns_view_none: "columns view_none = columns ex3"
  by (simp add: view_none_def apply_filters_def mask_rows_def)

text \<open>
  C3. On the view of the three-record dataset that the price range 50 to 50 and the
  size range 2000 to 2000 leave without records, the insight generator ends with the
  ValueError of \<^verbatim>\<open>idxmax\<close>, whatever the library returns for the skewness and the
  correlation, and the key metrics report NaN for the mean price, its delta, the
  mean size and the mean price-per-area; only the most common BHK is the neutral
  marker \<^verbatim>\<open>N/A\<close>.
\<close>

theorem empty_view_metrics:
  "rows view_none = [] \<and>
   display_insights_summary lib view_none = Inl ValueError \<and>
   fst (avg_price (display_key_metrics ex3 view_none)) = NaN \<and>
   snd (avg_price (display_key_metrics ex3 view_none)) = Some NaN \<and>
   fst (avg_size (display_key_metrics ex3 view_none)) = NaN \<and>
   fst (avg_pps (display_key_metrics ex3 view_none)) = NaN \<and>
   most_common_bhk (display_key_metrics ex3 view_none) = Some NA"
proof -
  have g: "groupby_city_mean lib view_none = []"
    by (simp add: groupby_city_mean_def rows_view_none)
  have i: "display_insights_summary lib view_none = Inl ValueError"
    by (simp add: display_insights_summary_def Let_def g idxmax_def columns_view_none)
       (simp add: ex3_def)
  have l: "len view_none \<noteq> len ex3" by (simp add: len_def rows_view_none) (simp add: ex3_def)
  have b: "common_bhk view_none = NA"
    by (simp add: common_bhk_def rows_view_none mode_def)
  have k: "fst (avg_price (display_key_metrics ex3 view_none)) = NaN"
      "snd (avg_price (display_key_metrics ex3 view_none)) = Some NaN"
      "fst (avg_size (display_key_metrics ex3 view_none)) = NaN"
      "fst (avg_pps (display_key_metrics ex3 view_none)) = NaN"
      "most_common_bhk (display_key_metrics ex3 view_none) = Some NA"
    using l by (simp_all add: display_key_metrics_def Let_def rows_view_none mean_def b
        columns_view_none) (simp add: ex3_def)
  show ?thesis using rows_view_none i k by simp
qed

end
